theory Spec2Isabelle
  imports Complex_Main "HOL-Library.Sublist"
begin

section \<open>Text primitives\<close>

text \<open>
  A Python string is modelled by its UTF-8 encoding, a \<^typ>\<open>string\<close> of bytes: an ASCII
  character is one byte, any other code point is a lead byte followed by continuation
  bytes. Concatenation and equality of strings are those of their bytes. The encoding of
  one code point never occurs inside or across the encodings of others, so \<open>w in t\<close> on
  two strings is a contiguous occurrence of the bytes, \<^term>\<open>sublist w t\<close>.
\<close>

definition is_ascii :: "string \<Rightarrow> bool" where
  "is_ascii s = list_all (\<lambda>c. (of_char c :: nat) < 128) s"

definition lower_char :: "char \<Rightarrow> char" where
  "lower_char c =
     (let n = (of_char c :: nat) in if 65 \<le> n \<and> n \<le> 90 then char_of (n + 32) else c)"

text \<open>
  \<open>s.lower()\<close>. On ASCII text it maps \<open>A\<close>..\<open>Z\<close> to \<open>a\<close>..\<open>z\<close>. On any other text it follows
  the case mappings of the Unicode database of the interpreter, which turn for instance
  the Kelvin sign into \<open>k\<close>. That table is not part of the repository: it is a parameter,
  \<open>unicode_lower\<close>, of every function that lower-cases text, and \<open>unicode_lower s\<close> is what
  \<open>s.lower()\<close> returns for a text \<open>s\<close> that is not all ASCII.
\<close>

definition lower :: "(string \<Rightarrow> string) \<Rightarrow> string \<Rightarrow> string" where
  "lower unicode_lower s = (if is_ascii s then map lower_char s else unicode_lower s)"

text \<open>
  Upper-casing and the test for a cased character, on ASCII. They are used by \<open>title\<close>
  below, which the program applies to the keys of the knowledge store only.
\<close>

definition upper_char :: "char \<Rightarrow> char" where
  "upper_char c =
     (let n = (of_char c :: nat) in if 97 \<le> n \<and> n \<le> 122 then char_of (n - 32) else c)"

definition is_cased :: "char \<Rightarrow> bool" where
  "is_cased c =
     (let n = (of_char c :: nat) in (65 \<le> n \<and> n \<le> 90) \<or> (97 \<le> n \<and> n \<le> 122))"

text \<open>
  The code points of a string: each byte that is not a continuation byte starts a new
  one. \<open>code_point\<close> decodes the bytes of one code point to its number.
\<close>

definition is_continuation :: "char \<Rightarrow> bool" where
  "is_continuation c = (let n = (of_char c :: nat) in 128 \<le> n \<and> n < 192)"

fun code_points :: "string \<Rightarrow> string list" where
  "code_points [] = []"
| "code_points [c] = [[c]]"
| "code_points (c # d # cs) =
     (if is_continuation d then
        (case code_points (d # cs) of p # ps \<Rightarrow> (c # p) # ps | [] \<Rightarrow> [[c]])
      else [c] # code_points (d # cs))"

fun decode :: "int list \<Rightarrow> int option" where
  "decode [a] = (if a < 128 then Some a else None)"
| "decode [a, b] =
     (if 192 \<le> a \<and> a < 224 then Some ((a - 192) * 64 + (b - 128)) else None)"
| "decode [a, b, c] =
     (if 224 \<le> a \<and> a < 240 then Some ((a - 224) * 4096 + (b - 128) * 64 + (c - 128))
      else None)"
| "decode [a, b, c, d] =
     (if 240 \<le> a \<and> a < 248
      then Some ((a - 240) * 262144 + (b - 128) * 4096 + (c - 128) * 64 + (d - 128))
      else None)"
| "decode bs = None"

definition code_point :: "string \<Rightarrow> int option" where
  "code_point p = decode (map of_char p)"

text \<open>
  The whitespace of \<open>str.split()\<close> and \<open>str.strip()\<close>: the ASCII characters 9 to 13 and 28
  to 32, and the code points U+0085, U+00A0, U+1680, U+2000 to U+200A, U+2028, U+2029,
  U+202F, U+205F and U+3000.
\<close>

definition is_whitespace :: "int \<Rightarrow> bool" where
  "is_whitespace n =
     ((9 \<le> n \<and> n \<le> 13) \<or> (28 \<le> n \<and> n \<le> 32) \<or> n = 0x85 \<or> n = 0xA0 \<or> n = 0x1680
      \<or> (0x2000 \<le> n \<and> n \<le> 0x200A) \<or> n = 0x2028 \<or> n = 0x2029 \<or> n = 0x202F
      \<or> n = 0x205F \<or> n = 0x3000)"

definition is_space :: "string \<Rightarrow> bool" where
  "is_space p = (case code_point p of Some n \<Rightarrow> is_whitespace n | None \<Rightarrow> False)"

text \<open>\<open>s.split()\<close>: the maximal runs of code points that are not whitespace, in order.\<close>

fun words_acc :: "string \<Rightarrow> string list \<Rightarrow> string list" where
  "words_acc cur [] = (if cur = [] then [] else [cur])"
| "words_acc cur (p # ps) =
     (if is_space p then (if cur = [] then words_acc [] ps else cur # words_acc [] ps)
      else words_acc (cur @ p) ps)"

definition split :: "string \<Rightarrow> string list" where
  "split s = words_acc [] (code_points s)"

text \<open>\<open>s.strip()\<close>: the string without its leading and trailing whitespace.\<close>

definition strip :: "string \<Rightarrow> string" where
  "strip s = concat (rev (dropWhile is_space (rev (dropWhile is_space (code_points s)))))"

text \<open>\<open>sep.join(xs)\<close>.\<close>

fun join :: "string \<Rightarrow> string list \<Rightarrow> string" where
  "join sep [] = []"
| "join sep [x] = x"
| "join sep (x # y # ys) = x @ sep @ join sep (y # ys)"

text \<open>
  \<open>s.replace('_', ' ')\<close>, and \<open>s.title()\<close> on ASCII text, which is what the keys of the
  store are.
\<close>

definition replace_underscore :: "string \<Rightarrow> string" where
  "replace_underscore s = map (\<lambda>c. if c = CHR ''_'' then CHR '' '' else c) s"

fun title_acc :: "bool \<Rightarrow> string \<Rightarrow> string" where
  "title_acc prev [] = []"
| "title_acc prev (c # cs) =
     (if prev then lower_char c else upper_char c) # title_acc (is_cased c) cs"

definition title :: "string \<Rightarrow> string" where
  "title s = title_acc False s"

text \<open>\<open>str(n)\<close> for an integer: its decimal digits.\<close>

definition digit_char :: "nat \<Rightarrow> char" where
  "digit_char d = char_of (48 + d)"

fun dec_nat :: "nat \<Rightarrow> string" where
  "dec_nat n = (if n < 10 then [digit_char n] else dec_nat (n div 10) @ [digit_char (n mod 10)])"

declare dec_nat.simps [simp del]

definition str_int :: "int \<Rightarrow> string" where
  "str_int i = (if i < 0 then CHR ''-'' # dec_nat (nat (- i)) else dec_nat (nat i))"

definition nl :: string where
  "nl = [CHR 0x0A]"

definition bullet :: string where
  "bullet = [CHR 0xE2, CHR 0x80, CHR 0xA2]"

section \<open>Knowledge store (\<open>CollegeKnowledgeBase\<close>)\<close>

text \<open>
  The store is a dict of categories; every category is a dict of subcategories; a
  subcategory's value is a string, a number, a list of strings, or a dict of such fields.
  Python dicts keep insertion order, so a dict is an association list with distinct keys.
\<close>

datatype field = Str string | Num int | StrList "string list"

datatype entry = Field field | Record "(string \<times> field) list"

type_synonym category_data = "(string \<times> entry) list"

type_synonym kb = "(string \<times> category_data) list"

definition courses :: category_data where
  "courses =
   [(''btech'', Record
      [(''full_name'', Str ''Bachelor of Technology''),
       (''duration'', Str ''4 years''),
       (''specializations'',
          StrList [''Computer Science'', ''Electronics'', ''Mechanical'', ''Civil'', ''Electrical'']),
       (''eligibility'', Str ''12th with PCM, minimum 75%''),
       (''fee_range'', Str ''1.5-2.5 lakh per year''),
       (''career_options'',
          StrList [''Software Engineer'', ''Data Scientist'', ''System Administrator''])]),
    (''mtech'', Record
      [(''full_name'', Str ''Master of Technology''),
       (''duration'', Str ''2 years''),
       (''specializations'',
          StrList [''AI/ML'', ''VLSI'', ''Power Systems'', ''Structural Engineering'']),
       (''eligibility'', Str ''BE/BTech with 60% minimum''),
       (''fee_range'', Str ''2-3 lakh per year''),
       (''career_options'',
          StrList [''Research Scientist'', ''Technical Lead'', ''Product Manager''])]),
    (''mba'', Record
      [(''full_name'', Str ''Master of Business Administration''),
       (''duration'', Str ''2 years''),
       (''specializations'',
          StrList [''Marketing'', ''Finance'', ''HR'', ''Operations'', ''Strategy'']),
       (''eligibility'', Str ''Any graduate with 50% + CAT/MAT''),
       (''fee_range'', Str ''3-5 lakh per year''),
       (''career_options'',
          StrList [''Manager'', ''Consultant'', ''Business Analyst'', ''Entrepreneur''])])]"

definition admission_process :: category_data where
  "admission_process =
   [(''application_period'', Field (Str ''May 1 - June 30'')),
    (''entrance_exam'',
       Field (Str ''JEE Main/Advanced for BTech, GATE for MTech, CAT/MAT for MBA'')),
    (''selection_criteria'', Field (Str ''Entrance exam score + 12th marks + Interview'')),
    (''documents_required'', Field (StrList
       [''10th and 12th mark sheets'',
        ''Transfer certificate'',
        ''Character certificate'',
        ''Caste certificate (if applicable)'',
        ''Income certificate'',
        ''Passport size photos'']))]"

definition facilities :: category_data where
  "facilities =
   [(''library'', Record
      [(''books'', Str ''50,000+ books and journals''),
       (''digital'', Str ''Access to IEEE, ACM, Springer databases''),
       (''timings'', Str ''8:00 AM - 10:00 PM (Mon-Sat), 9:00 AM - 6:00 PM (Sun)''),
       (''features'',
          StrList [''Silent reading zones'', ''Group discussion rooms'', ''Computer terminals''])]),
    (''hostel'', Record
      [(''capacity'', Str ''2000 students''),
       (''room_types'', StrList [''Single'', ''Double'', ''Triple occupancy'']),
       (''facilities'',
          StrList [''Wi-Fi'', ''Mess'', ''Recreation room'', ''Gym'', ''Medical room'']),
       (''fees'', Str ''Rs. 4,500-8,000 per month''),
       (''mess_charges'', Str ''Rs. 3,500 per month'')]),
    (''labs'', Record
      [(''computer_labs'', Str ''5 labs with 200+ computers''),
       (''specialized_labs'', StrList [''VLSI Lab'', ''Robotics Lab'', ''IoT Lab'', ''AI/ML Lab'']),
       (''equipment'', Str ''Latest software and hardware''),
       (''access_hours'', Str ''9:00 AM - 8:00 PM'')])]"

definition placement_stats :: category_data where
  "placement_stats =
   [(''overall_percentage'', Field (Num 95)),
    (''average_package'', Field (Str ''8.5 LPA'')),
    (''highest_package'', Field (Str ''45 LPA'')),
    (''top_recruiters'', Field (StrList
       [''Microsoft'', ''Google'', ''Amazon'', ''TCS'', ''Infosys'',
        ''Wipro'', ''Accenture'', ''IBM'', ''Flipkart'', ''Paytm''])),
    (''placement_process'', Field (StrList
       [''Pre-placement talks (September)'',
        ''Resume preparation workshops'',
        ''Mock interviews'',
        ''Campus drives (November-March)'',
        ''Final placements'']))]"

definition knowledge_base :: kb where
  "knowledge_base =
   [(''courses'', courses),
    (''admission_process'', admission_process),
    (''facilities'', facilities),
    (''placement_stats'', placement_stats)]"

subsection \<open>\<open>get_information\<close>\<close>

text \<open>
  The result dict of \<open>get_information\<close>: on success the data (one subcategory's entry, or
  the whole category), the category and, only when a subcategory was found, the
  subcategory; on failure the error text and the list of the store's category names.
  With a string category and a string-or-\<open>None\<close> subcategory nothing in the body raises,
  so the handler of its \<open>try\<close> has no branch here.
\<close>

datatype kb_data = Entry entry | Category category_data

datatype info_result =
    Found kb_data string "string option"
  | NotFound string "string list"

definition get_information :: "kb \<Rightarrow> string \<Rightarrow> string option \<Rightarrow> info_result" where
  "get_information store category subcategory =
     (case map_of store category of
        Some category_data \<Rightarrow>
          (case subcategory of
             None \<Rightarrow> Found (Category category_data) category None
           | Some sub \<Rightarrow>
               (if sub \<noteq> [] then
                  (case map_of category_data sub of
                     Some e \<Rightarrow> Found (Entry e) category (Some sub)
                   | None \<Rightarrow> Found (Category category_data) category None)
                else Found (Category category_data) category None))
      | None \<Rightarrow>
          NotFound (''Category '' @ category @ '' not found'') (map fst store))"

subsection \<open>\<open>json.dumps\<close> of a subcategory\<close>

text \<open>
  \<open>json.dumps\<close> with its defaults: separators \<open>", "\<close> and \<open>": "\<close>, strings in double
  quotes with \<open>"\<close>, \<open>\\<close> and the control characters escaped, and every other code point
  outside \<open>' '..'~'\<close> written \<open>\uXXXX\<close> with four lower-case hexadecimal digits, as a
  surrogate pair from U+10000 on. The result is ASCII text.
\<close>

definition hex_digit :: "nat \<Rightarrow> char" where
  "hex_digit d = (if d < 10 then char_of (48 + d) else char_of (87 + d))"

definition json_u :: "int \<Rightarrow> string" where
  "json_u n =
     [CHR 0x5C, CHR ''u'', hex_digit (nat (n div 4096 mod 16)), hex_digit (nat (n div 256 mod 16)),
      hex_digit (nat (n div 16 mod 16)), hex_digit (nat (n mod 16))]"

definition json_escape :: "string \<Rightarrow> string" where
  "json_escape p =
     (case code_point p of
        None \<Rightarrow> p
      | Some n \<Rightarrow>
          if n = 0x22 then [CHR 0x5C, CHR 0x22]
          else if n = 0x5C then [CHR 0x5C, CHR 0x5C]
          else if n = 0x0A then [CHR 0x5C, CHR ''n'']
          else if n = 0x0D then [CHR 0x5C, CHR ''r'']
          else if n = 0x09 then [CHR 0x5C, CHR ''t'']
          else if n = 0x08 then [CHR 0x5C, CHR ''b'']
          else if n = 0x0C then [CHR 0x5C, CHR ''f'']
          else if 32 \<le> n \<and> n \<le> 126 then p
          else if n < 0x10000 then json_u n
          else json_u (0xD800 + (n - 0x10000) div 1024) @ json_u (0xDC00 + (n - 0x10000) mod 1024))"

definition json_string :: "string \<Rightarrow> string" where
  "json_string s = [CHR 0x22] @ concat (map json_escape (code_points s)) @ [CHR 0x22]"

fun json_field :: "field \<Rightarrow> string" where
  "json_field (Str s) = json_string s"
| "json_field (Num i) = str_int i"
| "json_field (StrList xs) = ''['' @ join '', '' (map json_string xs) @ '']''"

fun json_dumps :: "entry \<Rightarrow> string" where
  "json_dumps (Field f) = json_field f"
| "json_dumps (Record kvs) =
     ''{'' @ join '', '' (map (\<lambda>(k, v). json_string k @ '': '' @ json_field v) kvs) @ ''}''"

subsection \<open>\<open>search_information\<close>\<close>

text \<open>
  One hit of the search. \<open>relevance_score\<close> is the quotient \<open>matches / len(query_words)\<close>;
  it is kept as an exact rational. All scores of one search share the denominator and
  Python's division rounds monotonically, so sorting by the float and sorting by the
  rational give the same order.
\<close>

record search_hit =
  hit_category :: string
  hit_subcategory :: string
  hit_data :: entry
  relevance_score :: rat

definition count_matches :: "string list \<Rightarrow> string \<Rightarrow> nat" where
  "count_matches query_words searchable_text =
     length (filter (\<lambda>word. sublist word searchable_text) query_words)"

definition subcategory_hit ::
  "(string \<Rightarrow> string) \<Rightarrow> string \<Rightarrow> string \<Rightarrow> string \<Rightarrow> entry \<Rightarrow> search_hit list" where
  "subcategory_hit unicode_lower query_lower category subcategory subcategory_data =
     (let searchable_text = lower unicode_lower (json_dumps subcategory_data);
          query_words = split query_lower;
          matches = count_matches query_words searchable_text
      in if matches > 0 then
           [\<lparr>hit_category = category, hit_subcategory = subcategory,
             hit_data = subcategory_data,
             relevance_score = of_nat matches / of_nat (length query_words)\<rparr>]
         else [])"

text \<open>
  The \<open>results\<close> list before sorting: the two nested loops, in dict order. Every
  category of the store is a dict, so the \<open>isinstance\<close> test of the outer loop holds.
\<close>

definition search_results :: "(string \<Rightarrow> string) \<Rightarrow> kb \<Rightarrow> string \<Rightarrow> search_hit list" where
  "search_results unicode_lower store query =
     concat (map (\<lambda>(category, category_data).
       concat (map (\<lambda>(subcategory, subcategory_data).
         subcategory_hit unicode_lower (lower unicode_lower query) category subcategory
           subcategory_data) category_data))
       store)"

text \<open>
  \<open>results.sort(key=relevance, reverse=True)\<close> is a stable sort into descending order:
  the stable insertion sort \<^const>\<open>sort_key\<close> on the negated score. Then \<open>results[:5]\<close>.
\<close>

definition search_information ::
  "(string \<Rightarrow> string) \<Rightarrow> kb \<Rightarrow> string \<Rightarrow> search_hit list" where
  "search_information unicode_lower store query =
     take 5 (sort_key (\<lambda>h. - relevance_score h) (search_results unicode_lower store query))"

text \<open>
  The match count as the specification words it, "how many distinct query words occur as
  substrings": repeated query words are counted once. It is compared with
  \<^const>\<open>count_matches\<close>, which is what the source computes.
\<close>

definition spec_distinct_matches :: "string list \<Rightarrow> string \<Rightarrow> nat" where
  "spec_distinct_matches query_words searchable_text =
     length (remdups (filter (\<lambda>word. sublist word searchable_text) query_words))"

section \<open>Intent classifier (\<open>CollegeIntentClassifier\<close>)\<close>

text \<open>
  One intent definition: its keywords, its patterns and its weight. The regular
  expressions of the source are literal text with at most one alternation group, so
  each pattern is written as the list of the literal strings it stands for
  (\<open>how to (apply|get admission)\<close> is \<open>how to apply\<close> or \<open>how to get admission\<close>), and
  \<open>re.search(pattern, text)\<close> succeeds exactly when one of them occurs in the text.
\<close>

record intent_data =
  intent_keywords :: "string list"
  intent_patterns :: "string list list"
  intent_weight :: rat

definition college_intents :: "(string \<times> intent_data) list" where
  "college_intents =
   [(''admission_inquiry'',
       \<lparr>intent_keywords = [''admission'', ''apply'', ''entrance'', ''eligibility'', ''requirements'',
                           ''form'', ''application''],
        intent_patterns = [[''how to apply'', ''how to get admission''],
                    [''admission process'', ''admission procedure''],
                    [''entrance exam'']],
        intent_weight = 3\<rparr>),
    (''fee_inquiry'',
       \<lparr>intent_keywords = [''fee'', ''cost'', ''price'', ''payment'', ''scholarship'', ''installment'',
                           ''tuition''],
        intent_patterns = [[''how much does it cost'', ''how much fees''],
                    [''fee structure''],
                    [''total cost'']],
        intent_weight = 3\<rparr>),
    (''course_information'',
       \<lparr>intent_keywords = [''course'', ''program'', ''degree'', ''subjects'', ''curriculum'', ''syllabus'',
                           ''duration''],
        intent_patterns = [[''what courses''], [''available programs''], [''course details'']],
        intent_weight = 3\<rparr>),
    (''placement_inquiry'',
       \<lparr>intent_keywords = [''placement'', ''job'', ''career'', ''salary'', ''companies'', ''recruitment'',
                           ''internship''],
        intent_patterns = [[''placement record'', ''placement statistics''],
                    [''job opportunities''],
                    [''career prospects'']],
        intent_weight = 3\<rparr>),
    (''hostel_accommodation'',
       \<lparr>intent_keywords = [''hostel'', ''accommodation'', ''room'', ''mess'', ''residence'', ''boarding''],
        intent_patterns = [[''hostel facilities'', ''hostel booking''],
                    [''accommodation available''],
                    [''room allocation'']],
        intent_weight = 2\<rparr>),
    (''faculty_information'',
       \<lparr>intent_keywords = [''faculty'', ''professor'', ''teacher'', ''staff'', ''instructor'',
                           ''qualification''],
        intent_patterns = [[''faculty details'', ''faculty information''],
                    [''about professors''],
                    [''teaching staff'']],
        intent_weight = 2\<rparr>),
    (''campus_facilities'',
       \<lparr>intent_keywords = [''library'', ''lab'', ''sports'', ''canteen'', ''wifi'', ''transport'', ''medical''],
        intent_patterns = [[''campus facilities''], [''library timings''], [''sports complex'']],
        intent_weight = 2\<rparr>),
    (''academic_schedule'',
       \<lparr>intent_keywords = [''timetable'', ''schedule'', ''exam'', ''result'', ''calendar'', ''semester''],
        intent_patterns = [[''class schedule'', ''class timetable''],
                    [''exam dates'', ''exam schedule''],
                    [''academic calendar'']],
        intent_weight = 2\<rparr>)]"

definition re_search :: "string list \<Rightarrow> string \<Rightarrow> bool" where
  "re_search pattern text = list_ex (\<lambda>alt. sublist alt text) pattern"

text \<open>
  The score of one intent: \<open>weight\<close> for each keyword in the text, and \<open>weight * 1.5\<close> for
  each pattern that matches. Scores are multiples of one half, which floats hold
  exactly, and a multiple of one half divided by ten compares with the literals \<open>0.3\<close> and
  \<open>0.7\<close> as the exact quotient does; so scores and confidences are rationals here.
\<close>

definition intent_score :: "intent_data \<Rightarrow> string \<Rightarrow> rat" where
  "intent_score d text_lower =
     of_nat (length (filter (\<lambda>keyword. sublist keyword text_lower) (intent_keywords d)))
       * intent_weight d
   + of_nat (length (filter (\<lambda>pattern. re_search pattern text_lower) (intent_patterns d)))
       * (intent_weight d * (3 / 2))"

definition intent_scores :: "string \<Rightarrow> (string \<times> rat) list" where
  "intent_scores text_lower =
     map (\<lambda>(intent_name, d). (intent_name, intent_score d text_lower)) college_intents"

text \<open>\<open>max(items, key=lambda x: x[1])\<close>: the first item with the greatest score.\<close>

fun max_item :: "(string \<times> rat) \<Rightarrow> (string \<times> rat) list \<Rightarrow> (string \<times> rat)" where
  "max_item best [] = best"
| "max_item best (x # xs) = max_item (if snd best < snd x then x else best) xs"

definition college_keywords :: "string list" where
  "college_keywords = [''college'', ''university'', ''student'', ''education'', ''academic'']"

text \<open>
  The result dict of \<open>classify_intent\<close>. \<open>all_scores\<close> is absent from the result of the
  handler and \<open>error\<close> is present only there.
\<close>

record classification =
  intent :: string
  confidence :: rat
  all_scores :: "(string \<times> rat) list option"
  error :: "string option"
  is_college_related :: bool

text \<open>
  The argument of \<open>classify_intent\<close> is whatever the caller passes. Only a string has a
  \<open>lower\<close> method; for \<open>None\<close> or a number \<open>text.lower()\<close> raises \<open>AttributeError\<close>, which
  is the fault the handler of \<open>classify_intent\<close> catches.
\<close>

datatype py_arg = PyStr string | PyNone | PyInt int

text \<open>The text of that \<open>AttributeError\<close>, for the type of the argument.\<close>

definition attribute_error :: "string \<Rightarrow> string" where
  "attribute_error type_name =
     [CHR 0x27] @ type_name @ [CHR 0x27] @ '' object has no attribute ''
     @ [CHR 0x27] @ ''lower'' @ [CHR 0x27]"

text \<open>The body of the \<open>try\<close>: \<open>Inl\<close> carries \<open>str(e)\<close> of the exception raised.\<close>

definition classify_body :: "(string \<Rightarrow> string) \<Rightarrow> py_arg \<Rightarrow> string + classification" where
  "classify_body unicode_lower text =
     (case text of
        PyNone \<Rightarrow> Inl (attribute_error ''NoneType'')
      | PyInt i \<Rightarrow> Inl (attribute_error ''int'')
      | PyStr t \<Rightarrow>
          (let text_lower = lower unicode_lower t;
               scores = intent_scores text_lower;
               top_intent = (case scores of [] \<Rightarrow> None | x # xs \<Rightarrow> Some (max_item x xs));
               confident =
                 (case top_intent of
                    None \<Rightarrow> None
                  | Some top_item \<Rightarrow>
                      (let confidence = min (snd top_item / 10) 1 in
                       if confidence \<ge> 3 / 10 then
                         Some \<lparr>intent = fst top_item, confidence = confidence,
                               all_scores = Some scores, error = None,
                               is_college_related = True\<rparr>
                       else None))
           in case confident of
                Some r \<Rightarrow> Inr r
              | None \<Rightarrow>
                  (if list_ex (\<lambda>keyword. sublist keyword text_lower) college_keywords then
                     Inr \<lparr>intent = ''general_college_inquiry'', confidence = 1 / 2,
                          all_scores = Some scores, error = None, is_college_related = True\<rparr>
                   else
                     Inr \<lparr>intent = ''unknown'', confidence = 0,
                          all_scores = Some scores, error = None,
                          is_college_related = False\<rparr>)))"

definition classify_intent :: "(string \<Rightarrow> string) \<Rightarrow> py_arg \<Rightarrow> classification" where
  "classify_intent unicode_lower text =
     (case classify_body unicode_lower text of
        Inr r \<Rightarrow> r
      | Inl e \<Rightarrow> \<lparr>intent = ''error'', confidence = 0, all_scores = None, error = Some e,
                  is_college_related = False\<rparr>)"

text \<open>The highest raw score of a text, the quantity the thresholds are applied to.\<close>

definition top_score :: "(string \<Rightarrow> string) \<Rightarrow> string \<Rightarrow> rat" where
  "top_score unicode_lower text =
     (case intent_scores (lower unicode_lower text) of
        [] \<Rightarrow> 0
      | x # xs \<Rightarrow> snd (max_item x xs))"

section \<open>Response generator (\<open>CollegeResponseGenerator\<close>)\<close>

subsection \<open>Course extraction\<close>

text \<open>The three alias lists of \<open>_extract_course_from_query\<close>, in the order it tests them.\<close>

definition btech_terms :: "string list" where
  "btech_terms = [''btech'', ''b.tech'', ''bachelor'', ''engineering'']"

definition mtech_terms :: "string list" where
  "mtech_terms = [''mtech'', ''m.tech'', ''master'', ''technology'']"

definition mba_terms :: "string list" where
  "mba_terms = [''mba'', ''management'', ''business'']"

definition any_term_in :: "string list \<Rightarrow> string \<Rightarrow> bool" where
  "any_term_in terms query_lower = list_ex (\<lambda>t. sublist t query_lower) terms"

definition extract_course_from_query :: "(string \<Rightarrow> string) \<Rightarrow> string \<Rightarrow> string" where
  "extract_course_from_query unicode_lower query =
     (let query_lower = lower unicode_lower query in
      if any_term_in btech_terms query_lower then ''btech''
      else if any_term_in mtech_terms query_lower then ''mtech''
      else if any_term_in mba_terms query_lower then ''mba''
      else ''btech'')"

subsection \<open>Reading the data of a lookup\<close>

text \<open>
  \<open>data[key]\<close> on the data of a lookup and on an entry. A missing key raises \<open>KeyError\<close>
  and a string, number or list indexed by a string raises \<open>TypeError\<close>; both are \<open>None\<close>
  here, and \<open>generate_response\<close> turns every exception into its apology.
\<close>

fun subscript :: "kb_data \<Rightarrow> string \<Rightarrow> entry option" where
  "subscript (Category category_data) k = map_of category_data k"
| "subscript (Entry (Record kvs)) k = map_option Field (map_of kvs k)"
| "subscript (Entry (Field f)) k = None"

fun entry_subscript :: "entry \<Rightarrow> string \<Rightarrow> entry option" where
  "entry_subscript (Record kvs) k = map_option Field (map_of kvs k)"
| "entry_subscript (Field f) k = None"

text \<open>
  Iterating a value: a list gives its items, a string its characters, a dict its keys,
  and a number raises. \<open>value[:5]\<close> before the iteration keeps five items of a list or
  five characters of a string and raises on a number or a dict.
\<close>

fun iterate :: "entry \<Rightarrow> string list option" where
  "iterate (Field (StrList xs)) = Some xs"
| "iterate (Field (Str s)) = Some (code_points s)"
| "iterate (Field (Num i)) = None"
| "iterate (Record kvs) = Some (map fst kvs)"

fun iterate_first5 :: "entry \<Rightarrow> string list option" where
  "iterate_first5 (Field (StrList xs)) = Some (take 5 xs)"
| "iterate_first5 (Field (Str s)) = Some (take 5 (code_points s))"
| "iterate_first5 (Field (Num i)) = None"
| "iterate_first5 (Record kvs) = None"

text \<open>
  \<open>str(value)\<close>, which is what a template placeholder prints: a string as it is, a number
  in decimal, a list or a dict as Python's \<open>repr\<close> writes it. \<open>repr\<close> is written out for
  ASCII text, which is what the store of the program holds; the bytes of any other code
  point are kept as they are.
\<close>

definition repr_char :: "char \<Rightarrow> char \<Rightarrow> string" where
  "repr_char q c =
     (let n = (of_char c :: nat) in
      if c = q \<or> c = CHR 0x5C then [CHR 0x5C, c]
      else if c = CHR 0x0A then [CHR 0x5C, CHR ''n'']
      else if c = CHR 0x0D then [CHR 0x5C, CHR ''r'']
      else if c = CHR 0x09 then [CHR 0x5C, CHR ''t'']
      else if n < 32 \<or> n = 127 then [CHR 0x5C, CHR ''x'', hex_digit (n div 16), hex_digit (n mod 16)]
      else [c])"

definition py_repr :: "string \<Rightarrow> string" where
  "py_repr s =
     (let q = (if CHR 0x27 \<in> set s \<and> CHR 0x22 \<notin> set s then CHR 0x22 else CHR 0x27)
      in [q] @ concat (map (repr_char q) s) @ [q])"

fun repr_field :: "field \<Rightarrow> string" where
  "repr_field (Str s) = py_repr s"
| "repr_field (Num i) = str_int i"
| "repr_field (StrList xs) = ''['' @ join '', '' (map py_repr xs) @ '']''"

fun str_entry :: "entry \<Rightarrow> string" where
  "str_entry (Field (Str s)) = s"
| "str_entry (Field f) = repr_field f"
| "str_entry (Record kvs) =
     ''{'' @ join '', '' (map (\<lambda>(k, v). py_repr k @ '': '' @ repr_field v) kvs) @ ''}''"

definition bullet_list :: "string list \<Rightarrow> string" where
  "bullet_list xs = join nl (map (\<lambda>x. bullet @ '' '' @ x) xs)"

subsection \<open>Response templates\<close>

text \<open>
  The four \<open>response_templates\<close> with their placeholders as arguments, and the two
  f-strings of the hostel and facilities responses. Each is the list of its lines.
\<close>

definition admission_inquiry_template ::
  "string \<Rightarrow> string \<Rightarrow> string \<Rightarrow> string \<Rightarrow> string" where
  "admission_inquiry_template application_period entrance_exam selection_criteria documents =
     join nl
      [[],
       [CHR 0xF0, CHR 0x9F, CHR 0x8E, CHR 0x93] @ '' **Admission Information:**'',
       [],
       ''**Application Period:** '' @ application_period,
       ''**Entrance Exam:** '' @ entrance_exam,
       ''**Selection Process:** '' @ selection_criteria,
       [],
       ''**Required Documents:**'',
       documents,
       [],
       ''**Next Steps:**'',
       ''1. Fill online application form'',
       ''2. Pay application fee'',
       ''3. Take entrance exam'',
       ''4. Attend counseling (if selected)'',
       [],
       [CHR 0xF0, CHR 0x9F, CHR 0x93, CHR 0x9E] @ '' **Contact:** admissions@college.edu | 0123-456-7890'',
       ''            '']"

definition course_information_template ::
  "string \<Rightarrow> string \<Rightarrow> string \<Rightarrow> string \<Rightarrow> string \<Rightarrow> string \<Rightarrow> string" where
  "course_information_template course_name duration specializations eligibility fee_range career_options =
     join nl
      [[],
       [CHR 0xF0, CHR 0x9F, CHR 0x93, CHR 0x9A] @ '' **'' @ course_name @ '' Details:**'',
       [],
       ''**Duration:** '' @ duration,
       ''**Specializations Available:**'',
       specializations,
       [],
       ''**Eligibility:** '' @ eligibility,
       ''**Fee Range:** '' @ fee_range,
       [],
       ''**Career Opportunities:**'',
       career_options,
       [],
       ''**Would you like more details about any specific specialization?**'',
       ''            '']"

definition fee_inquiry_template ::
  "string \<Rightarrow> string \<Rightarrow> string" where
  "fee_inquiry_template course fee_range =
     join nl
      [[],
       [CHR 0xF0, CHR 0x9F, CHR 0x92, CHR 0xB0] @ '' **Fee Structure for '' @ course @ '':**'',
       [],
       ''**Annual Fees:** '' @ fee_range,
       ''**Additional Costs:**'',
       bullet @ '' Hostel: Rs. 4,500-8,000/month'',
       bullet @ '' Mess: Rs. 3,500/month'',
       bullet @ '' Books & Materials: Rs. 10,000/year'',
       [],
       ''**Payment Options:**'',
       bullet @ '' Annual payment (5% discount)'',
       bullet @ '' Semester-wise payment'',
       bullet @ '' EMI facility available'',
       [],
       ''**Scholarships Available:**'',
       bullet @ '' Merit-based scholarships up to 50%'',
       bullet @ '' Need-based financial assistance'',
       bullet @ '' Government scholarships for eligible categories'',
       ''            '']"

definition placement_inquiry_template ::
  "string \<Rightarrow> string \<Rightarrow> string \<Rightarrow> string \<Rightarrow> string \<Rightarrow> string" where
  "placement_inquiry_template overall_percentage average_package highest_package top_recruiters placement_process =
     join nl
      [[],
       [CHR 0xF0, CHR 0x9F, CHR 0x93, CHR 0x88] @ '' **Placement Statistics:**'',
       [],
       ''**Placement Rate:** '' @ overall_percentage @ ''%'',
       ''**Average Package:** Rs. '' @ average_package,
       ''**Highest Package:** Rs. '' @ highest_package,
       [],
       ''**Top Recruiters:**'',
       top_recruiters,
       [],
       ''**Placement Process:**'',
       placement_process,
       [],
       ''**Industry Connections:**'',
       bullet @ '' Regular industry visits'',
       bullet @ '' Guest lectures by professionals  '',
       bullet @ '' Internship opportunities'',
       bullet @ '' Skill development workshops'',
       ''            '']"

definition hostel_text ::
  "string \<Rightarrow> string \<Rightarrow> string \<Rightarrow> string \<Rightarrow> string \<Rightarrow> string" where
  "hostel_text capacity room_types facilities_list fees mess_charges =
     join nl
      [[],
       [CHR 0xF0, CHR 0x9F, CHR 0x8F, CHR 0xA0] @ '' **Hostel Accommodation:**'',
       [],
       ''**Capacity:** '' @ capacity,
       ''**Room Types:** '' @ room_types,
       [],
       ''**Facilities:**'',
       facilities_list,
       [],
       ''**Fees:**'',
       bullet @ '' Accommodation: '' @ fees,
       bullet @ '' Mess charges: '' @ mess_charges,
       [],
       ''**Booking Process:**'',
       ''1. Complete admission formalities'',
       ''2. Submit hostel application'',
       ''3. Pay hostel fees and security deposit'',
       ''4. Get room allocation'',
       [],
       [CHR 0xF0, CHR 0x9F, CHR 0x93, CHR 0x9E] @ '' **Contact Hostel Office:** hostel@college.edu'',
       ''            '']"

definition facilities_text ::
  "string \<Rightarrow> string \<Rightarrow> string \<Rightarrow> string \<Rightarrow> string \<Rightarrow> string \<Rightarrow> string \<Rightarrow> string \<Rightarrow> string" where
  "facilities_text books digital timings computer_labs specialized_labs access_hours capacity room_types =
     join nl
      [[],
       [CHR 0xF0, CHR 0x9F, CHR 0x8F, CHR 0xAB] @ '' **Campus Facilities:**'',
       [],
       ''**'' @ [CHR 0xF0, CHR 0x9F, CHR 0x93, CHR 0x9A] @ '' Library:**'',
       bullet @ '' '' @ books,
       bullet @ '' Digital access: '' @ digital,
       bullet @ '' Timings: '' @ timings,
       [],
       ''**'' @ [CHR 0xF0, CHR 0x9F, CHR 0x92, CHR 0xBB] @ '' Computer Labs:**'',
       bullet @ '' '' @ computer_labs,
       bullet @ '' Specialized labs: '' @ specialized_labs,
       bullet @ '' Access: '' @ access_hours,
       [],
       ''**'' @ [CHR 0xF0, CHR 0x9F, CHR 0x8F, CHR 0xA0] @ '' Hostel:**'',
       bullet @ '' Capacity: '' @ capacity,
       bullet @ '' Types: '' @ room_types,
       [],
       ''**Additional Facilities:**'',
       bullet @ '' Sports complex with gym'',
       bullet @ '' Medical center'',
       bullet @ '' Cafeteria and mess'',
       bullet @ '' Transportation'',
       bullet @ '' Wi-Fi campus'',
       ''            '']"

definition generate_default_response :: string where
  "generate_default_response =
     join nl
      [[],
       [CHR 0xF0, CHR 0x9F, CHR 0x8E, CHR 0x93] @ '' **I'' @ [CHR 0x27] @ ''m here to help with college information!**'',
       [],
       ''**Popular topics I can assist with:**'',
       bullet @ '' '' @ [CHR 0xF0, CHR 0x9F, CHR 0x93, CHR 0x9D] @ '' Admissions and eligibility criteria'',
       bullet @ '' '' @ [CHR 0xF0, CHR 0x9F, CHR 0x92, CHR 0xB0] @ '' Fee structure and scholarships'',
       bullet @ '' '' @ [CHR 0xF0, CHR 0x9F, CHR 0x93, CHR 0x9A] @ '' Available courses and specializations'',
       bullet @ '' '' @ [CHR 0xF0, CHR 0x9F, CHR 0x8F, CHR 0xA2] @ '' Placement statistics and career prospects'',
       bullet @ '' '' @ [CHR 0xF0, CHR 0x9F, CHR 0x8F, CHR 0xA0] @ '' Hostel accommodation and facilities'',
       bullet @ '' '' @ [CHR 0xF0, CHR 0x9F, CHR 0x8F, CHR 0xAB] @ '' Campus facilities and infrastructure'',
       bullet @ '' '' @ [CHR 0xF0, CHR 0x9F, CHR 0x93, CHR 0x85] @ '' Academic calendar and schedules'',
       [],
       ''**Try asking me:**'',
       bullet @ '' '' @ [CHR 0x22] @ ''What are the admission requirements for B.Tech?'' @ [CHR 0x22],
       bullet @ '' '' @ [CHR 0x22] @ ''Tell me about MBA fees and scholarships'' @ [CHR 0x22],
       bullet @ '' '' @ [CHR 0x22] @ ''How is the placement record?'' @ [CHR 0x22],
       bullet @ '' '' @ [CHR 0x22] @ ''What hostel facilities are available?'' @ [CHR 0x22],
       [],
       ''**Need immediate help?** Contact our office:'',
       [CHR 0xF0, CHR 0x9F, CHR 0x93, CHR 0x9E] @ '' Phone: 0123-456-7890'',
       [CHR 0xF0, CHR 0x9F, CHR 0x93, CHR 0xA7] @ '' Email: info@college.edu'',
       ''        '']"

subsection \<open>The responses of the dedicated intents\<close>

text \<open>
  Each \<open>_generate_*_response\<close> looks its data up in the store. \<open>None\<close> is an exception
  raised while reading the data.
\<close>

definition generate_admission_response :: "kb \<Rightarrow> string option" where
  "generate_admission_response store =
     (case get_information store ''admission_process'' None of
        Found data c s \<Rightarrow>
          (case Option.bind (subscript data ''documents_required'') iterate of
             None \<Rightarrow> None
           | Some docs \<Rightarrow>
          (case subscript data ''application_period'' of None \<Rightarrow> None | Some application_period \<Rightarrow>
          (case subscript data ''entrance_exam'' of None \<Rightarrow> None | Some entrance_exam \<Rightarrow>
          (case subscript data ''selection_criteria'' of None \<Rightarrow> None | Some selection_criteria \<Rightarrow>
             Some (admission_inquiry_template (str_entry application_period)
                     (str_entry entrance_exam) (str_entry selection_criteria)
                     (bullet_list docs))))))
      | NotFound e cs \<Rightarrow>
          Some ''Please contact our admissions office for detailed admission information.'')"

definition generate_course_response :: "kb \<Rightarrow> string \<Rightarrow> string option" where
  "generate_course_response store course =
     (case get_information store ''courses'' (Some course) of
        Found data c s \<Rightarrow>
          (case Option.bind (subscript data ''specializations'') iterate of
             None \<Rightarrow> None
           | Some specs \<Rightarrow>
          (case Option.bind (subscript data ''career_options'') iterate of
             None \<Rightarrow> None
           | Some careers \<Rightarrow>
          (case subscript data ''full_name'' of None \<Rightarrow> None | Some full_name \<Rightarrow>
          (case subscript data ''duration'' of None \<Rightarrow> None | Some duration \<Rightarrow>
          (case subscript data ''eligibility'' of None \<Rightarrow> None | Some eligibility \<Rightarrow>
          (case subscript data ''fee_range'' of None \<Rightarrow> None | Some fee_range \<Rightarrow>
             Some (course_information_template (str_entry full_name) (str_entry duration)
                     (bullet_list specs) (str_entry eligibility) (str_entry fee_range)
                     (bullet_list careers))))))))
      | NotFound e cs \<Rightarrow>
          Some (''I don'' @ [CHR 0x27] @ ''t have detailed information about '' @ course
                @ ''. Please contact our academic office for specific course details.''))"

definition generate_fee_response :: "kb \<Rightarrow> string \<Rightarrow> string option" where
  "generate_fee_response store course =
     (case get_information store ''courses'' (Some course) of
        Found data c s \<Rightarrow>
          (case subscript data ''full_name'' of None \<Rightarrow> None | Some full_name \<Rightarrow>
          (case subscript data ''fee_range'' of None \<Rightarrow> None | Some fee_range \<Rightarrow>
             Some (fee_inquiry_template (str_entry full_name) (str_entry fee_range))))
      | NotFound e cs \<Rightarrow>
          Some ''Please contact our accounts office for detailed fee information.'')"

definition generate_placement_response :: "kb \<Rightarrow> string option" where
  "generate_placement_response store =
     (case get_information store ''placement_stats'' None of
        Found data c s \<Rightarrow>
          (case Option.bind (subscript data ''top_recruiters'') iterate_first5 of
             None \<Rightarrow> None
           | Some recruiters \<Rightarrow>
          (case Option.bind (subscript data ''placement_process'') iterate of
             None \<Rightarrow> None
           | Some steps \<Rightarrow>
          (case subscript data ''overall_percentage'' of None \<Rightarrow> None | Some overall_percentage \<Rightarrow>
          (case subscript data ''average_package'' of None \<Rightarrow> None | Some average_package \<Rightarrow>
          (case subscript data ''highest_package'' of None \<Rightarrow> None | Some highest_package \<Rightarrow>
             Some (placement_inquiry_template (str_entry overall_percentage)
                     (str_entry average_package) (str_entry highest_package)
                     (bullet_list recruiters) (bullet_list steps)))))))
      | NotFound e cs \<Rightarrow>
          Some ''Please contact our placement cell for current placement statistics.'')"

definition generate_hostel_response :: "kb \<Rightarrow> string option" where
  "generate_hostel_response store =
     (case get_information store ''facilities'' (Some ''hostel'') of
        Found data c s \<Rightarrow>
          (case Option.bind (subscript data ''facilities'') iterate of
             None \<Rightarrow> None
           | Some facilities_list \<Rightarrow>
          (case subscript data ''capacity'' of None \<Rightarrow> None | Some capacity \<Rightarrow>
          (case Option.bind (subscript data ''room_types'') iterate of
             None \<Rightarrow> None
           | Some room_types \<Rightarrow>
          (case subscript data ''fees'' of None \<Rightarrow> None | Some fees \<Rightarrow>
          (case subscript data ''mess_charges'' of None \<Rightarrow> None | Some mess_charges \<Rightarrow>
             Some (hostel_text (str_entry capacity) (join '', '' room_types)
                     (bullet_list facilities_list) (str_entry fees)
                     (str_entry mess_charges)))))))
      | NotFound e cs \<Rightarrow>
          Some ''Please contact the hostel office for accommodation details.'')"

definition generate_facilities_response :: "kb \<Rightarrow> string option" where
  "generate_facilities_response store =
     (case get_information store ''facilities'' None of
        Found data c s \<Rightarrow>
          (case subscript data ''library'' of None \<Rightarrow> None | Some library \<Rightarrow>
          (case entry_subscript library ''books'' of None \<Rightarrow> None | Some books \<Rightarrow>
          (case entry_subscript library ''digital'' of None \<Rightarrow> None | Some digital \<Rightarrow>
          (case entry_subscript library ''timings'' of None \<Rightarrow> None | Some timings \<Rightarrow>
          (case subscript data ''labs'' of None \<Rightarrow> None | Some labs \<Rightarrow>
          (case entry_subscript labs ''computer_labs'' of None \<Rightarrow> None | Some computer_labs \<Rightarrow>
          (case Option.bind (entry_subscript labs ''specialized_labs'') iterate of
             None \<Rightarrow> None
           | Some specialized_labs \<Rightarrow>
          (case entry_subscript labs ''access_hours'' of None \<Rightarrow> None | Some access_hours \<Rightarrow>
          (case subscript data ''hostel'' of None \<Rightarrow> None | Some hostel \<Rightarrow>
          (case entry_subscript hostel ''capacity'' of None \<Rightarrow> None | Some capacity \<Rightarrow>
          (case Option.bind (entry_subscript hostel ''room_types'') iterate of
             None \<Rightarrow> None
           | Some room_types \<Rightarrow>
             Some (facilities_text (str_entry books) (str_entry digital) (str_entry timings)
                     (str_entry computer_labs) (join '', '' specialized_labs)
                     (str_entry access_hours) (str_entry capacity)
                     (join '', '' room_types)))))))))))))
      | NotFound e cs \<Rightarrow>
          Some ''Please visit our campus to see all the facilities we offer.'')"

subsection \<open>The search-based response\<close>

definition render_field :: "string \<times> field \<Rightarrow> string" where
  "render_field kv =
     bullet @ '' '' @ title (replace_underscore (fst kv)) @ '': ''
     @ (case snd kv of
          StrList xs \<Rightarrow> join '', '' (take 3 xs)
        | Str s \<Rightarrow> s
        | Num i \<Rightarrow> str_int i)
     @ nl"

definition render_result :: "nat \<times> search_hit \<Rightarrow> string" where
  "render_result ir =
     ''**'' @ dec_nat (fst ir) @ ''. '' @ title (hit_category (snd ir)) @ '':**'' @ nl
     @ (case hit_data (snd ir) of
          Record kvs \<Rightarrow> concat (map render_field kvs)
        | Field f \<Rightarrow> [])
     @ nl"

definition generate_search_based_response :: "search_hit list \<Rightarrow> string \<Rightarrow> string" where
  "generate_search_based_response results query =
     ''Here'' @ [CHR 0x27] @ ''s what I found related to '' @ [CHR 0x27] @ query @ [CHR 0x27]
     @ '':'' @ nl @ nl
     @ concat (map render_result
         (zip [1 ..< Suc (length (take 3 results))] (take 3 results)))
     @ ''Would you like more specific information about any of these topics?''"

subsection \<open>\<open>generate_response\<close>\<close>

definition generate_response_body ::
  "(string \<Rightarrow> string) \<Rightarrow> kb \<Rightarrow> string \<Rightarrow> string \<Rightarrow> string option" where
  "generate_response_body unicode_lower store intent_name query =
     (if intent_name = ''admission_inquiry'' then generate_admission_response store
      else if intent_name = ''course_information'' then
        generate_course_response store (extract_course_from_query unicode_lower query)
      else if intent_name = ''fee_inquiry'' then
        generate_fee_response store (extract_course_from_query unicode_lower query)
      else if intent_name = ''placement_inquiry'' then generate_placement_response store
      else if intent_name = ''hostel_accommodation'' then generate_hostel_response store
      else if intent_name = ''campus_facilities'' then generate_facilities_response store
      else
        (let results = search_information unicode_lower store query in
         if results \<noteq> [] then
           Some (generate_search_based_response results query)
         else Some generate_default_response))"

text \<open>The handler of \<open>generate_response\<close>: any exception becomes the apology.\<close>

definition generate_response ::
  "(string \<Rightarrow> string) \<Rightarrow> kb \<Rightarrow> string \<Rightarrow> string \<Rightarrow> string" where
  "generate_response unicode_lower store intent_name query =
     (case generate_response_body unicode_lower store intent_name query of
        Some response \<Rightarrow> response
      | None \<Rightarrow>
          ''I apologize, but I'' @ [CHR 0x27] @ ''m having trouble processing your request ''
          @ ''right now. Please try asking about specific topics like admissions, courses, ''
          @ ''fees, or placements.'')"

section \<open>Language service (\<open>LanguageService\<close>)\<close>

text \<open>
  The translation library is outside the program. \<open>detect\<close> is \<open>Translator.detect(text).lang\<close>
  and \<open>translate\<close> is \<open>Translator.translate(text, src, dest).text\<close>; \<open>None\<close> means the call
  raised. The three methods of the service catch every exception themselves.
\<close>

record translator =
  detect :: "string \<Rightarrow> string option"
  translate :: "string \<Rightarrow> string \<Rightarrow> string \<Rightarrow> string option"

definition supported_languages :: "string list" where
  "supported_languages = [''en'', ''hi'', ''ta'', ''te'', ''ml'', ''kn'', ''bn'']"

definition detect_language :: "translator \<Rightarrow> string \<Rightarrow> string" where
  "detect_language tr text =
     (case detect tr text of
        Some lang \<Rightarrow> if lang \<in> set supported_languages then lang else ''en''
      | None \<Rightarrow> ''en'')"

definition translate_for_rasa :: "translator \<Rightarrow> string \<Rightarrow> string \<Rightarrow> string" where
  "translate_for_rasa tr text source_lang =
     (if source_lang = ''en'' then text
      else (case translate tr text source_lang ''en'' of Some result \<Rightarrow> result | None \<Rightarrow> text))"

definition translate_from_rasa :: "translator \<Rightarrow> string \<Rightarrow> string \<Rightarrow> string" where
  "translate_from_rasa tr text target_lang =
     (if target_lang = ''en'' then text
      else (case translate tr text ''en'' target_lang of Some result \<Rightarrow> result | None \<Rightarrow> text))"

section \<open>Dialogue engine adapter (\<open>RasaService\<close>)\<close>

text \<open>
  The request sent to the engine, and what \<open>requests.post\<close> can give back: an exception
  (connection refused, timeout), with \<open>str(e)\<close> as its text, or a response with a status
  code and a body. The body is read only through \<open>response.json()\<close>, which either raises
  (\<open>Inl\<close>, with the text of the exception) or yields the list of the engine's messages.
  A message has an optional \<open>text\<close> and an optional \<open>intent\<close> with optional \<open>name\<close> and
  \<open>confidence\<close>; a missing \<open>intent\<close> reads as one with neither.
\<close>

record metadata =
  meta_language :: string
  meta_input_type :: string
  meta_user_id :: "string option"
  meta_college_intent :: string

record payload =
  sender :: string
  payload_message :: string
  payload_metadata :: "metadata option"

record rasa_message =
  msg_text :: "string option"
  msg_intent_name :: "string option"
  msg_intent_confidence :: "rat option"

datatype http_result =
    RequestRaised string
  | HttpResponse nat "string + rasa_message list"

text \<open>
  The result dict of the adapter: on success the message, the intent and the confidence;
  on failure only the \<open>error\<close> text.
\<close>

datatype rasa_result =
    RasaSuccess string "string option" "rat option"
  | RasaFailure string

definition rasa_success :: "rasa_result \<Rightarrow> bool" where
  "rasa_success r = (case r of RasaSuccess m i c \<Rightarrow> True | RasaFailure e \<Rightarrow> False)"

text \<open>What the adapter does with the outcome of the request.\<close>

definition rasa_reply :: "http_result \<Rightarrow> rasa_result" where
  "rasa_reply outcome =
     (case outcome of
        RequestRaised e \<Rightarrow> RasaFailure e
      | HttpResponse status_code body \<Rightarrow>
          (if status_code = 200 then
             (case body of
                Inl e \<Rightarrow> RasaFailure e
              | Inr rasa_response \<Rightarrow>
                  (case rasa_response of
                     first # rest \<Rightarrow>
                       RasaSuccess
                         (case msg_text first of Some t \<Rightarrow> t | None \<Rightarrow> ''No response'')
                         (msg_intent_name first) (msg_intent_confidence first)
                   | [] \<Rightarrow> RasaFailure (''HTTP '' @ dec_nat status_code)))
           else RasaFailure (''HTTP '' @ dec_nat status_code)))"

definition rasa_send_message ::
  "(payload \<Rightarrow> http_result) \<Rightarrow> string \<Rightarrow> string \<Rightarrow> metadata option \<Rightarrow> rasa_result" where
  "rasa_send_message post message sender_id meta =
     rasa_reply (post \<lparr>sender = sender_id, payload_message = message, payload_metadata = meta\<rparr>)"

section \<open>Pipeline orchestrator (\<open>send_message\<close> of the chat routes)\<close>

text \<open>
  The JSON body of the request, the collaborators outside the program, and the reply.
  A key that is absent from the body is \<open>None\<close>. \<open>str_lower\<close> is the \<open>unicode_lower\<close> of
  the interpreter that runs the handler. The database session and the wall-clock
  response time are not part of the model: the handler only writes to them, and the
  model covers the handler as long as those writes succeed. Each call the handler makes
  on a collaborator is recorded, in order, next to the reply.
\<close>

record request =
  message :: "string option"
  session_id :: "string option"
  user_id :: "string option"
  language :: "string option"
  input_type :: "string option"

record env =
  str_lower :: "string \<Rightarrow> string"
  translator_of :: translator
  post_of :: "payload \<Rightarrow> http_result"
  uuid4 :: string

datatype call =
    DetectLanguage string
  | ClassifyIntent string
  | GenerateResponse string string
  | GenerateDefaultResponse
  | TranslateForRasa string string
  | RasaSendMessage string string "metadata option"
  | TranslateFromRasa string string

record restricted_body =
  rb_message :: string
  rb_session_id :: string
  rb_language :: string
  rb_input_type :: string
  rb_intent :: string
  rb_restricted :: bool

record chat_body =
  cb_message :: string
  cb_session_id :: string
  cb_language :: string
  cb_detected_language :: string
  cb_input_type :: string
  cb_intent :: string
  cb_confidence :: rat
  cb_response_source :: string
  cb_college_intent :: string
  cb_college_confidence :: rat

datatype reply =
    BadRequest string
  | RestrictedReply restricted_body
  | ChatReply chat_body

definition restricted_message :: string where
  "restricted_message =
     join nl
      [''I'' @ [CHR 0x27] @ ''m Edumate, your college assistant! I can help you with:'',
       [],
       [CHR 0xF0, CHR 0x9F, CHR 0x8E, CHR 0x93] @ '' Admissions and eligibility'',
       [CHR 0xF0, CHR 0x9F, CHR 0x92, CHR 0xB0] @ '' Fee structure and scholarships'',
       [CHR 0xF0, CHR 0x9F, CHR 0x93, CHR 0x9A] @ '' Available courses and programs'',
       [CHR 0xF0, CHR 0x9F, CHR 0x8F, CHR 0xA2] @ '' Placement statistics and careers'',
       [CHR 0xF0, CHR 0x9F, CHR 0x8F, CHR 0xA0] @ '' Hostel and campus facilities'',
       [],
       ''Please ask me about college-related topics!'']"

text \<open>
  Step 2 of the handler, the choice between the local generator and the engine. It gives
  the response text, the intent, the confidence and the response source, with the calls
  made. \<open>x or y\<close> on the engine's intent and confidence takes \<open>y\<close> when \<open>x\<close> is \<open>None\<close>,
  the empty string or zero. The handler of the surrounding \<open>try\<close> has no branch here:
  \<open>generate_response\<close>, \<open>translate_for_rasa\<close> and the adapter catch every exception
  themselves, so nothing in the body raises.
\<close>

definition route ::
  "env \<Rightarrow> classification \<Rightarrow> string \<Rightarrow> string \<Rightarrow> string \<Rightarrow> string \<Rightarrow> string option
    \<Rightarrow> (string \<times> string \<times> rat \<times> string) \<times> call list" where
  "route e intent_result message_text detected_language sid itype uid =
     (if confidence intent_result \<ge> 7 / 10 then
        ((generate_response (str_lower e) knowledge_base (intent intent_result) message_text,
          intent intent_result, confidence intent_result, ''college_ai''),
         [GenerateResponse (intent intent_result) message_text])
      else
        (let rasa_message = translate_for_rasa (translator_of e) message_text detected_language;
             meta = Some \<lparr>meta_language = detected_language, meta_input_type = itype,
                          meta_user_id = uid, meta_college_intent = intent intent_result\<rparr>;
             calls = [TranslateForRasa message_text detected_language,
                      RasaSendMessage rasa_message sid meta]
         in case rasa_send_message (post_of e) rasa_message sid meta of
              RasaSuccess m i c \<Rightarrow>
                ((m,
                  (case i of Some n \<Rightarrow> if n \<noteq> [] then n else intent intent_result
                           | None \<Rightarrow> intent intent_result),
                  (case c of Some x \<Rightarrow> if x \<noteq> 0 then x else confidence intent_result
                           | None \<Rightarrow> confidence intent_result),
                  ''rasa''),
                 calls)
            | RasaFailure err \<Rightarrow>
                ((generate_default_response, ''fallback'', 1 / 2, ''college_ai_fallback''),
                 calls @ [GenerateDefaultResponse])))"

text \<open>
  The optional parameters of the request: \<open>input_type\<close> defaults to \<open>text\<close>; \<open>language\<close>
  defaults to \<open>en\<close> and an empty or \<open>auto\<close> language is replaced by the detected one; a
  missing or empty \<open>session_id\<close> is replaced by a fresh identifier.
\<close>

definition resolve_input_type :: "request \<Rightarrow> string" where
  "resolve_input_type data = (case input_type data of Some t \<Rightarrow> t | None \<Rightarrow> ''text'')"

definition resolve_language :: "request \<Rightarrow> string \<Rightarrow> string" where
  "resolve_language data detected_language =
     (let preferred_language = (case language data of Some l \<Rightarrow> l | None \<Rightarrow> ''en'') in
      if preferred_language = [] \<or> preferred_language = ''auto'' then detected_language
      else preferred_language)"

definition resolve_session_id :: "env \<Rightarrow> request \<Rightarrow> string" where
  "resolve_session_id e data =
     (case session_id data of
        Some s \<Rightarrow> if s \<noteq> [] then s else uuid4 e
      | None \<Rightarrow> uuid4 e)"

definition send_message :: "env \<Rightarrow> request \<Rightarrow> reply \<times> call list" where
  "send_message e data =
     (case message data of
        None \<Rightarrow> (BadRequest ''Message is required'', [])
      | Some m \<Rightarrow>
          (let message_text = strip m in
           if message_text = [] then (BadRequest ''Message cannot be empty'', [])
           else
             (let itype = resolve_input_type data;
                  detected_language = detect_language (translator_of e) message_text;
                  preferred_language = resolve_language data detected_language;
                  sid = resolve_session_id e data;
                  intent_result = classify_intent (str_lower e) (PyStr message_text);
                  calls = [DetectLanguage message_text, ClassifyIntent message_text]
              in
                if \<not> is_college_related intent_result then
                  (RestrictedReply
                     \<lparr>rb_message =
                        (if preferred_language \<noteq> ''en'' then
                           translate_from_rasa (translator_of e) restricted_message
                             preferred_language
                         else restricted_message),
                      rb_session_id = sid, rb_language = preferred_language,
                      rb_input_type = itype, rb_intent = ''non_college_topic'',
                      rb_restricted = True\<rparr>,
                   calls @ (if preferred_language \<noteq> ''en''
                            then [TranslateFromRasa restricted_message preferred_language]
                            else []))
                else
                  (case route e intent_result message_text detected_language sid itype
                          (user_id data) of
                     ((bot_response_text, rasa_intent, rasa_confidence, response_source),
                      routed_calls) \<Rightarrow>
                       (ChatReply
                          \<lparr>cb_message =
                             (if preferred_language \<noteq> ''en'' then
                                translate_from_rasa (translator_of e) bot_response_text
                                  preferred_language
                              else bot_response_text),
                           cb_session_id = sid, cb_language = preferred_language,
                           cb_detected_language = detected_language, cb_input_type = itype,
                           cb_intent = rasa_intent, cb_confidence = rasa_confidence,
                           cb_response_source = response_source,
                           cb_college_intent = intent intent_result,
                           cb_college_confidence = confidence intent_result\<rparr>,
                        calls @ routed_calls
                        @ (if preferred_language \<noteq> ''en''
                           then [TranslateFromRasa bot_response_text preferred_language]
                           else []))))))"

section \<open>An example deployment\<close>

text \<open>
  A deployment in which the dialogue engine cannot be reached and the translation
  library detects English and fails to translate, and a request that carries only a
  message. The theorems below are instantiated on them. The texts of the examples are
  ASCII, for which \<open>lower\<close> does not consult \<open>unicode_lower\<close>; the examples take for it the
  mapping that changes the ASCII letters only.
\<close>

definition ascii_letters_lower :: "string \<Rightarrow> string" where
  "ascii_letters_lower s = map lower_char s"

definition unreachable_env :: env where
  "unreachable_env =
     \<lparr>str_lower = ascii_letters_lower,
      translator_of = \<lparr>detect = (\<lambda>text. Some ''en''), translate = (\<lambda>text src dest. None)\<rparr>,
      post_of = (\<lambda>p. RequestRaised ''HTTPConnectionPool: Max retries exceeded''),
      uuid4 = ''00000000-0000-4000-8000-000000000000''\<rparr>"

definition text_request :: "string \<Rightarrow> request" where
  "text_request m =
     \<lparr>message = Some m, session_id = None, user_id = None, language = None,
      input_type = None\<rparr>"

section \<open>Verified properties\<close>

subsection \<open>Free-text search\<close>

lemma subcategory_hit_sound:
  assumes "h \<in> set (subcategory_hit L ql c s d)"
  shows "hit_category h = c \<and> hit_subcategory h = s \<and> hit_data h = d
       \<and> relevance_score h = of_nat (count_matches (split ql) (lower L (json_dumps d)))
                               / of_nat (length (split ql))
       \<and> 0 < count_matches (split ql) (lower L (json_dumps d))"
  using assms by (auto simp: subcategory_hit_def Let_def split: if_splits)

lemma search_results_sound:
  assumes "h \<in> set (search_results L store q)"
  shows "(\<exists>category_data. (hit_category h, category_data) \<in> set store
            \<and> (hit_subcategory h, hit_data h) \<in> set category_data)
       \<and> relevance_score h
           = of_nat (count_matches (split (lower L q)) (lower L (json_dumps (hit_data h))))
             / of_nat (length (split (lower L q)))
       \<and> 0 < count_matches (split (lower L q)) (lower L (json_dumps (hit_data h)))"
proof -
  from assms obtain c cd s d where
    cd: "(c, cd) \<in> set store" and sd: "(s, d) \<in> set cd"
    and h: "h \<in> set (subcategory_hit L (lower L q) c s d)"
    by (auto simp: search_results_def)
  from subcategory_hit_sound [OF h] cd sd show ?thesis by auto
qed

lemma search_results_complete:
  assumes "(c, cd) \<in> set store" and "(s, d) \<in> set cd"
    and "0 < count_matches (split (lower L q)) (lower L (json_dumps d))"
  shows "\<lparr>hit_category = c, hit_subcategory = s, hit_data = d,
          relevance_score = of_nat (count_matches (split (lower L q)) (lower L (json_dumps d)))
                            / of_nat (length (split (lower L q)))\<rparr>
         \<in> set (search_results L store q)"
proof -
  have "\<lparr>hit_category = c, hit_subcategory = s, hit_data = d,
          relevance_score = of_nat (count_matches (split (lower L q)) (lower L (json_dumps d)))
                            / of_nat (length (split (lower L q)))\<rparr>
        \<in> set (subcategory_hit L (lower L q) c s d)"
    using assms(3) by (simp add: subcategory_hit_def Let_def)
  with assms(1,2) show ?thesis
    unfolding search_results_def by force
qed

lemma search_information_subset:
  "set (search_information L store q) \<subseteq> set (search_results L store q)"
  by (auto simp: search_information_def dest: in_set_takeD)

lemma search_information_sorted:
  "sorted_wrt (\<lambda>a b. relevance_score b \<le> relevance_score a) (search_information L store q)"
proof -
  have "sorted (map (\<lambda>h. - relevance_score h)
                 (sort_key (\<lambda>h. - relevance_score h) (search_results L store q)))"
    by (rule sorted_sort_key)
  then have "sorted_wrt (\<lambda>a b. relevance_score b \<le> relevance_score a)
               (sort_key (\<lambda>h. - relevance_score h) (search_results L store q))"
    by (simp add: sorted_map)
  then show ?thesis
    unfolding search_information_def by (rule sorted_wrt_take)
qed

lemma filter_take_prefix: "prefix (filter P (take n xs)) (filter P xs)"
proof -
  have "filter P xs = filter P (take n xs) @ filter P (drop n xs)"
    by (metis append_take_drop_id filter_append)
  then show ?thesis by (simp add: prefix_def)
qed

lemma search_information_stable:
  "prefix (filter (\<lambda>h. relevance_score h = k) (search_information L store q))
          (filter (\<lambda>h. relevance_score h = k) (search_results L store q))"
proof -
  have "filter (\<lambda>h. - relevance_score h = - k)
          (sort_key (\<lambda>h. - relevance_score h) (search_results L store q))
        = filter (\<lambda>h. - relevance_score h = - k) (search_results L store q)"
    by (rule sort_key_stable)
  then have "filter (\<lambda>h. relevance_score h = k)
          (sort_key (\<lambda>h. - relevance_score h) (search_results L store q))
        = filter (\<lambda>h. relevance_score h = k) (search_results L store q)"
    by simp
  then show ?thesis
    unfolding search_information_def by (metis filter_take_prefix)
qed

lemma split_lpa: "split (lower L ''LPA lpa'') = [''lpa'', ''lpa'']"
  by code_simp

lemma average_package_matches:
  "count_matches [''lpa'', ''lpa''] (lower L (json_dumps (Field (Str ''8.5 LPA'')))) = 2"
  by code_simp

lemma search_lpa_nonempty: "search_information L knowledge_base ''LPA lpa'' \<noteq> []"
proof -
  have a: "(''placement_stats'', placement_stats) \<in> set knowledge_base"
    by (simp add: knowledge_base_def)
  have b: "(''average_package'', Field (Str ''8.5 LPA'')) \<in> set placement_stats"
    by (simp add: placement_stats_def)
  have c: "0 < count_matches (split (lower L ''LPA lpa''))
                 (lower L (json_dumps (Field (Str ''8.5 LPA''))))"
    by (simp only: split_lpa average_package_matches)
  have "0 < length (search_results L knowledge_base ''LPA lpa'')"
    by (rule length_pos_if_in_set [OF search_results_complete [OF a b c]])
  then have "0 < length (search_information L knowledge_base ''LPA lpa'')"
    by (simp add: search_information_def del: length_greater_0_conv)
  then show ?thesis
    by simp
qed

text \<open>
  Claim C1, as the code has it. For every store and query, \<open>search_information\<close> returns at
  most 5 hits, in order of non-increasing relevance; hits of equal relevance keep the
  order in which the two loops over categories and subcategories produced them; and
  every returned hit is a subcategory of the store whose relevance is the number of
  query words found in the lower-cased serialized entry, each occurrence of a repeated
  word counted, divided by the number of query words, with at least one word found. So
  an entry with no match is never returned.
\<close>

theorem search_information_correct:
  "length (search_information L store q) \<le> 5
   \<and> sorted_wrt (\<lambda>a b. relevance_score b \<le> relevance_score a) (search_information L store q)
   \<and> (\<forall>k. prefix (filter (\<lambda>h. relevance_score h = k) (search_information L store q))
                   (filter (\<lambda>h. relevance_score h = k) (search_results L store q)))
   \<and> (\<forall>h \<in> set (search_information L store q).
         (\<exists>category_data. (hit_category h, category_data) \<in> set store
             \<and> (hit_subcategory h, hit_data h) \<in> set category_data)
         \<and> relevance_score h
             = of_nat (count_matches (split (lower L q)) (lower L (json_dumps (hit_data h))))
               / of_nat (length (split (lower L q)))
         \<and> 1 \<le> count_matches (split (lower L q)) (lower L (json_dumps (hit_data h))))"
proof -
  have "length (search_information L store q) \<le> 5"
    by (simp add: search_information_def)
  moreover have "\<forall>h \<in> set (search_information L store q).
         (\<exists>category_data. (hit_category h, category_data) \<in> set store
             \<and> (hit_subcategory h, hit_data h) \<in> set category_data)
         \<and> relevance_score h
             = of_nat (count_matches (split (lower L q)) (lower L (json_dumps (hit_data h))))
               / of_nat (length (split (lower L q)))
         \<and> 1 \<le> count_matches (split (lower L q)) (lower L (json_dumps (hit_data h)))"
  proof
    fix h assume "h \<in> set (search_information L store q)"
    then have "h \<in> set (search_results L store q)"
      using search_information_subset by blast
    from search_results_sound [OF this]
    show "(\<exists>category_data. (hit_category h, category_data) \<in> set store
             \<and> (hit_subcategory h, hit_data h) \<in> set category_data)
         \<and> relevance_score h
             = of_nat (count_matches (split (lower L q)) (lower L (json_dumps (hit_data h))))
               / of_nat (length (split (lower L q)))
         \<and> 1 \<le> count_matches (split (lower L q)) (lower L (json_dumps (hit_data h)))"
      by (simp add: Suc_le_eq)
  qed
  ultimately show ?thesis
    using search_information_sorted search_information_stable by blast
qed

text \<open>
  The statement at the store of the program and the query \<open>LPA lpa\<close>: the result is not
  empty and its first hit has relevance 1.
\<close>

theorem search_information_correct_witness:
  "search_information ascii_letters_lower knowledge_base ''LPA lpa'' \<noteq> []
   \<and> hd (search_information ascii_letters_lower knowledge_base ''LPA lpa'')
       \<in> set (search_information ascii_letters_lower knowledge_base ''LPA lpa'')
   \<and> length (search_information ascii_letters_lower knowledge_base ''LPA lpa'') \<le> 5
   \<and> relevance_score (hd (search_information ascii_letters_lower knowledge_base ''LPA lpa'')) = 1"
proof -
  let ?h = "hd (search_information ascii_letters_lower knowledge_base ''LPA lpa'')"
  have mem: "?h \<in> set (search_information ascii_letters_lower knowledge_base ''LPA lpa'')"
    using search_lpa_nonempty by simp
  from search_information_correct [of ascii_letters_lower knowledge_base "''LPA lpa''"] mem
  have len: "length (search_information ascii_letters_lower knowledge_base ''LPA lpa'') \<le> 5"
    and rel: "relevance_score ?h
       = of_nat (count_matches (split (lower ascii_letters_lower ''LPA lpa'')) (lower ascii_letters_lower (json_dumps (hit_data ?h))))
         / of_nat (length (split (lower ascii_letters_lower ''LPA lpa'')))"
    and pos: "1 \<le> count_matches (split (lower ascii_letters_lower ''LPA lpa'')) (lower ascii_letters_lower (json_dumps (hit_data ?h)))"
    by blast+
  from pos have "count_matches [''lpa'', ''lpa''] (lower ascii_letters_lower (json_dumps (hit_data ?h))) = 2"
    unfolding split_lpa by (simp add: count_matches_def split: if_splits)
  with rel have "relevance_score ?h = 1"
    unfolding split_lpa by simp
  with search_lpa_nonempty mem len show ?thesis by simp
qed

text \<open>
  Claim C1 as the specification states it counts distinct query words. For the query
  \<open>LPA lpa\<close> both words are the same word once lower-cased: the first hit has relevance
  \<open>2 / 2\<close>, and the count of distinct words gives \<open>1 / 2\<close>.
\<close>

theorem search_relevance_distinct_counterexample:
  "search_information ascii_letters_lower knowledge_base ''LPA lpa'' \<noteq> []
   \<and> relevance_score (hd (search_information ascii_letters_lower knowledge_base ''LPA lpa''))
       \<noteq> of_nat (spec_distinct_matches (split (lower ascii_letters_lower ''LPA lpa''))
                   (lower ascii_letters_lower (json_dumps (hit_data (hd (search_information ascii_letters_lower knowledge_base ''LPA lpa''))))))
         / of_nat (length (split (lower ascii_letters_lower ''LPA lpa'')))"
proof -
  let ?h = "hd (search_information ascii_letters_lower knowledge_base ''LPA lpa'')"
  have "?h \<in> set (search_results ascii_letters_lower knowledge_base ''LPA lpa'')"
    using search_lpa_nonempty search_information_subset by (meson hd_in_set subsetD)
  from search_results_sound [OF this]
  have rel: "relevance_score ?h
       = of_nat (count_matches (split (lower ascii_letters_lower ''LPA lpa'')) (lower ascii_letters_lower (json_dumps (hit_data ?h))))
         / of_nat (length (split (lower ascii_letters_lower ''LPA lpa'')))"
    and pos: "0 < count_matches (split (lower ascii_letters_lower ''LPA lpa'')) (lower ascii_letters_lower (json_dumps (hit_data ?h)))"
    by blast+
  from pos have sub: "sublist ''lpa'' (lower ascii_letters_lower (json_dumps (hit_data ?h)))"
    unfolding split_lpa by (simp add: count_matches_def split: if_splits)
  from sub rel have "relevance_score ?h = 1"
    unfolding split_lpa by (simp add: count_matches_def)
  moreover from sub have "of_nat (spec_distinct_matches (split (lower ascii_letters_lower ''LPA lpa''))
                            (lower ascii_letters_lower (json_dumps (hit_data ?h))))
                          / of_nat (length (split (lower ascii_letters_lower ''LPA lpa''))) = (1 / 2 :: rat)"
    unfolding split_lpa by (simp add: spec_distinct_matches_def)
  ultimately show ?thesis
    using search_lpa_nonempty by simp
qed

subsection \<open>Lookup\<close>

text \<open>
  Claim C6. For a category that is present in the store and a subcategory that is missing
  (\<open>None\<close>) or is not a key of that category, \<open>get_information\<close> succeeds and returns the
  whole category. For a category that is not in the store it fails and carries the list
  of the store's category names.
\<close>

theorem get_information_permissive:
  "(map_of store category = Some category_data
      \<longrightarrow> (subcategory = None \<or> (\<exists>s. subcategory = Some s \<and> s \<notin> fst ` set category_data))
      \<longrightarrow> get_information store category subcategory
            = Found (Category category_data) category None)
   \<and> (map_of store category = None
      \<longrightarrow> get_information store category subcategory
            = NotFound (''Category '' @ category @ '' not found'') (map fst store))"
proof (intro conjI impI)
  assume present: "map_of store category = Some category_data"
    and sub: "subcategory = None \<or> (\<exists>s. subcategory = Some s \<and> s \<notin> fst ` set category_data)"
  from sub show "get_information store category subcategory
                 = Found (Category category_data) category None"
  proof
    assume "subcategory = None"
    with present show ?thesis by (simp add: get_information_def)
  next
    assume "\<exists>s. subcategory = Some s \<and> s \<notin> fst ` set category_data"
    then obtain s where s: "subcategory = Some s" and "s \<notin> fst ` set category_data"
      by blast
    then have "map_of category_data s = None"
      by (simp add: map_of_eq_None_iff)
    with present s show ?thesis by (simp add: get_information_def)
  qed
next
  assume "map_of store category = None"
  then show "get_information store category subcategory
             = NotFound (''Category '' @ category @ '' not found'') (map fst store)"
    by (simp add: get_information_def)
qed

lemma courses_lookup: "map_of knowledge_base ''courses'' = Some courses"
  by (simp add: knowledge_base_def)

lemma phd_not_course: "''phd'' \<notin> fst ` set courses"
  by (simp add: courses_def)

lemma nonexistent_lookup: "map_of knowledge_base ''nonexistent_category'' = None"
  by (simp add: knowledge_base_def)

text \<open>
  On the store of the program: the subcategory \<open>phd\<close> of \<open>courses\<close>, no subcategory, and
  a category that does not exist.
\<close>

theorem get_information_permissive_witness:
  "get_information knowledge_base ''courses'' (Some ''phd'')
     = Found (Category courses) ''courses'' None
   \<and> get_information knowledge_base ''courses'' None
     = Found (Category courses) ''courses'' None
   \<and> get_information knowledge_base ''nonexistent_category'' None
     = NotFound ''Category nonexistent_category not found''
         [''courses'', ''admission_process'', ''facilities'', ''placement_stats'']"
proof -
  have 1: "get_information knowledge_base ''courses'' (Some ''phd'')
     = Found (Category courses) ''courses'' None"
    using get_information_permissive [of knowledge_base "''courses''" courses "Some ''phd''"]
      courses_lookup phd_not_course by blast
  have 2: "get_information knowledge_base ''courses'' None
     = Found (Category courses) ''courses'' None"
    using get_information_permissive [of knowledge_base "''courses''" courses None]
      courses_lookup by blast
  have 3: "get_information knowledge_base ''nonexistent_category'' None
     = NotFound (''Category '' @ ''nonexistent_category'' @ '' not found'')
         (map fst knowledge_base)"
    using get_information_permissive
      [of knowledge_base "''nonexistent_category''" courses None]
      nonexistent_lookup by blast
  have 4: "map fst knowledge_base
     = [''courses'', ''admission_process'', ''facilities'', ''placement_stats'']"
    by (simp add: knowledge_base_def)
  from 1 2 3 4 show ?thesis by simp
qed

subsection \<open>Classification\<close>

text \<open>
  Claim C2. If the highest intent score of a text divided by 10 is below 0.3 and the
  lower-cased text contains none of the generic keywords \<open>college\<close>, \<open>university\<close>,
  \<open>student\<close>, \<open>education\<close>, \<open>academic\<close>, then \<open>classify_intent\<close> returns the intent
  \<open>unknown\<close> with confidence 0 and \<open>is_college_related = False\<close>.
\<close>

theorem classify_out_of_domain:
  assumes "top_score L text / 10 < 3 / 10"
    and "\<not> list_ex (\<lambda>keyword. sublist keyword (lower L text)) college_keywords"
  shows "classify_intent L (PyStr text)
         = \<lparr>intent = ''unknown'', confidence = 0,
            all_scores = Some (intent_scores (lower L text)), error = None,
            is_college_related = False\<rparr>"
  using assms
  by (auto simp: classify_intent_def classify_body_def top_score_def Let_def
           split: list.splits)

lemma hello_scores: "top_score L ''hello there'' = 0"
  by code_simp

lemma hello_keywords:
  "\<not> list_ex (\<lambda>keyword. sublist keyword (lower L ''hello there'')) college_keywords"
  by code_simp

text \<open>The text \<open>hello there\<close> scores 0 for every intent and has no generic keyword.\<close>

theorem classify_out_of_domain_witness:
  "top_score ascii_letters_lower ''hello there'' / 10 < 3 / 10
   \<and> intent (classify_intent ascii_letters_lower (PyStr ''hello there'')) = ''unknown''
   \<and> confidence (classify_intent ascii_letters_lower (PyStr ''hello there'')) = 0
   \<and> \<not> is_college_related (classify_intent ascii_letters_lower (PyStr ''hello there''))"
proof -
  have h: "top_score ascii_letters_lower ''hello there'' / 10 < 3 / 10"
    by (simp add: hello_scores)
  from classify_out_of_domain [OF h hello_keywords] h show ?thesis
    by simp
qed

text \<open>
  Claim C8, as the code has it. When the body of \<open>classify_intent\<close> raises, the exception
  does not leave the function: the result has the intent \<open>error\<close>, confidence 0 and
  \<open>is_college_related = False\<close>, and carries the text of the exception.
\<close>

theorem classify_fault_is_error:
  assumes "classify_body L text = Inl e"
  shows "classify_intent L text
         = \<lparr>intent = ''error'', confidence = 0, all_scores = None, error = Some e,
            is_college_related = False\<rparr>"
  using assms by (simp add: classify_intent_def)

lemma classify_body_none: "classify_body L PyNone = Inl (attribute_error ''NoneType'')"
  by (simp add: classify_body_def)

text \<open>Classifying \<open>None\<close> raises \<open>AttributeError\<close> at \<open>text.lower()\<close>.\<close>

theorem classify_fault_is_error_witness:
  "intent (classify_intent ascii_letters_lower PyNone) = ''error''
   \<and> confidence (classify_intent ascii_letters_lower PyNone) = 0
   \<and> \<not> is_college_related (classify_intent ascii_letters_lower PyNone)"
  using classify_fault_is_error [OF classify_body_none] by simp

text \<open>
  Claim C8 as the specification states it names the intent \<open>unknown\<close> for a fault. The
  handler returns \<open>error\<close>; \<open>unknown\<close> is the intent of a text that is classified without
  a fault and is out of domain.
\<close>

theorem classify_fault_unknown_counterexample:
  "classify_body ascii_letters_lower PyNone = Inl (attribute_error ''NoneType'')
   \<and> intent (classify_intent ascii_letters_lower PyNone) \<noteq> ''unknown''"
  by (simp add: classify_intent_def classify_body_def)

subsection \<open>Course extraction and the fee response\<close>

lemma any_term_inI: "t \<in> set terms \<Longrightarrow> sublist t query_lower \<Longrightarrow> any_term_in terms query_lower"
  unfolding any_term_in_def list_ex_iff by blast

lemma bachelor_is_btech_term: "''bachelor'' \<in> set btech_terms"
  by (simp add: btech_terms_def)

lemma master_is_mtech_term: "''master'' \<in> set mtech_terms"
  by (simp add: mtech_terms_def)

lemma extract_course_cases:
  "extract_course_from_query L q =
     (if any_term_in btech_terms (lower L q) then ''btech''
      else if any_term_in mtech_terms (lower L q) then ''mtech''
      else if any_term_in mba_terms (lower L q) then ''mba''
      else ''btech'')"
  by (simp only: extract_course_from_query_def Let_def)

text \<open>
  Claim C10. \<open>_extract_course_from_query\<close> returns one of \<open>btech\<close>, \<open>mtech\<close>, \<open>mba\<close>. It
  tests the alias lists in the order btech, mtech, mba and returns the code of the first
  list with an alias in the lower-cased query, and \<open>btech\<close> when no list has one. So a
  query with \<open>bachelor\<close> and \<open>business\<close> yields \<open>btech\<close>, and a query with \<open>master\<close> and no
  alias of the earlier btech list yields \<open>mtech\<close>, whatever mba aliases it has.
\<close>

theorem extract_course_priority:
  "extract_course_from_query L q \<in> {''btech'', ''mtech'', ''mba''}
   \<and> (any_term_in btech_terms (lower L q) \<longrightarrow> extract_course_from_query L q = ''btech'')
   \<and> (\<not> any_term_in btech_terms (lower L q) \<and> any_term_in mtech_terms (lower L q)
        \<longrightarrow> extract_course_from_query L q = ''mtech'')
   \<and> (\<not> any_term_in btech_terms (lower L q) \<and> \<not> any_term_in mtech_terms (lower L q)
        \<and> any_term_in mba_terms (lower L q)
        \<longrightarrow> extract_course_from_query L q = ''mba'')
   \<and> (\<not> any_term_in btech_terms (lower L q) \<and> \<not> any_term_in mtech_terms (lower L q)
        \<and> \<not> any_term_in mba_terms (lower L q)
        \<longrightarrow> extract_course_from_query L q = ''btech'')
   \<and> (sublist ''bachelor'' (lower L q) \<and> sublist ''business'' (lower L q)
        \<longrightarrow> extract_course_from_query L q = ''btech'')
   \<and> (sublist ''master'' (lower L q) \<and> \<not> any_term_in btech_terms (lower L q)
        \<longrightarrow> extract_course_from_query L q = ''mtech'')"
proof -
  have one: "extract_course_from_query L q \<in> {''btech'', ''mtech'', ''mba''}"
    unfolding extract_course_cases by simp
  have btech: "any_term_in btech_terms (lower L q) \<longrightarrow> extract_course_from_query L q = ''btech''"
    unfolding extract_course_cases by simp
  have mtech: "\<not> any_term_in btech_terms (lower L q) \<and> any_term_in mtech_terms (lower L q)
        \<longrightarrow> extract_course_from_query L q = ''mtech''"
    unfolding extract_course_cases by simp
  have mba: "\<not> any_term_in btech_terms (lower L q) \<and> \<not> any_term_in mtech_terms (lower L q)
        \<and> any_term_in mba_terms (lower L q)
        \<longrightarrow> extract_course_from_query L q = ''mba''"
    unfolding extract_course_cases by simp
  have dflt: "\<not> any_term_in btech_terms (lower L q) \<and> \<not> any_term_in mtech_terms (lower L q)
        \<and> \<not> any_term_in mba_terms (lower L q)
        \<longrightarrow> extract_course_from_query L q = ''btech''"
    unfolding extract_course_cases by simp
  have ex1: "sublist ''bachelor'' (lower L q) \<and> sublist ''business'' (lower L q)
        \<longrightarrow> extract_course_from_query L q = ''btech''"
    using btech any_term_inI [OF bachelor_is_btech_term] by blast
  have ex2: "sublist ''master'' (lower L q) \<and> \<not> any_term_in btech_terms (lower L q)
        \<longrightarrow> extract_course_from_query L q = ''mtech''"
    using mtech any_term_inI [OF master_is_mtech_term] by blast
  from one btech mtech mba dflt ex1 ex2 show ?thesis by blast
qed

lemma mba_text_terms:
  "sublist ''master'' (lower L ''Master of Business Administration'')
   \<and> any_term_in mba_terms (lower L ''Master of Business Administration'')
   \<and> \<not> any_term_in btech_terms (lower L ''Master of Business Administration'')"
  by code_simp

lemma bachelor_text_terms:
  "sublist ''bachelor'' (lower L ''Bachelor of business'')
   \<and> sublist ''business'' (lower L ''Bachelor of business'')"
  by code_simp

lemma hello_terms:
  "\<not> any_term_in btech_terms (lower L ''hello there'')
   \<and> \<not> any_term_in mtech_terms (lower L ''hello there'')
   \<and> \<not> any_term_in mba_terms (lower L ''hello there'')"
  by code_simp

text \<open>
  \<open>Master of Business Administration\<close> has the mtech alias \<open>master\<close> and the mba alias
  \<open>business\<close>, and is read as \<open>mtech\<close>.
\<close>

theorem extract_course_priority_witness:
  "extract_course_from_query ascii_letters_lower ''Master of Business Administration'' = ''mtech''
   \<and> extract_course_from_query ascii_letters_lower ''Bachelor of business'' = ''btech''
   \<and> extract_course_from_query ascii_letters_lower ''hello there'' = ''btech''"
proof -
  have 1: "extract_course_from_query ascii_letters_lower ''Master of Business Administration'' = ''mtech''"
    using extract_course_priority [of ascii_letters_lower "''Master of Business Administration''"] mba_text_terms
    by blast
  have 2: "extract_course_from_query ascii_letters_lower ''Bachelor of business'' = ''btech''"
    using extract_course_priority [of ascii_letters_lower "''Bachelor of business''"] bachelor_text_terms
    by blast
  have 3: "extract_course_from_query ascii_letters_lower ''hello there'' = ''btech''"
    using extract_course_priority [of ascii_letters_lower "''hello there''"] hello_terms
    by blast
  from 1 2 3 show ?thesis by blast
qed

lemma sublist_join: "x \<in> set xs \<Longrightarrow> sublist x (join sep xs)"
proof (induction sep xs rule: join.induct)
  case (1 sep)
  then show ?case by simp
next
  case (2 sep y)
  then show ?case by simp
next
  case (3 sep y z zs)
  show ?case
  proof (cases "x = y")
    case True
    then show ?thesis by simp
  next
    case False
    with 3 have "sublist x (join sep (z # zs))" by simp
    then have "sublist x ((y @ sep) @ join sep (z # zs))"
      by (meson sublist_append)
    then show ?thesis by simp
  qed
qed

lemma fee_template_shows_fee_range: "sublist fee_range (fee_inquiry_template course fee_range)"
proof -
  have "sublist (''**Annual Fees:** '' @ fee_range) (fee_inquiry_template course fee_range)"
    unfolding fee_inquiry_template_def by (rule sublist_join) simp
  moreover have "sublist fee_range (''**Annual Fees:** '' @ fee_range)"
    by (rule sublist_append_leftI)
  ultimately show ?thesis
    by (rule sublist_order.order_trans [rotated])
qed

lemma mtech_query_terms:
  "\<not> any_term_in btech_terms (lower L ''What is the fee for mtech'')
   \<and> any_term_in mtech_terms (lower L ''What is the fee for mtech'')"
  by code_simp

lemma mtech_fee_lookup:
  "generate_fee_response knowledge_base ''mtech''
   = Some (fee_inquiry_template ''Master of Technology'' ''2-3 lakh per year'')"
  by (simp add: generate_fee_response_def get_information_def knowledge_base_def courses_def)

text \<open>
  Claim C7. For the text \<open>What is the fee for mtech\<close> the extracted course is \<open>mtech\<close>, and
  the response generated for the intent \<open>fee_inquiry\<close> contains \<open>2-3 lakh per year\<close>.
\<close>

theorem mtech_fee_response:
  "extract_course_from_query L ''What is the fee for mtech'' = ''mtech''
   \<and> sublist ''2-3 lakh per year''
        (generate_response L knowledge_base ''fee_inquiry'' ''What is the fee for mtech'')"
proof -
  have course: "extract_course_from_query L ''What is the fee for mtech'' = ''mtech''"
    using mtech_query_terms by (simp only: extract_course_cases if_True if_False)
  have "generate_response_body L knowledge_base ''fee_inquiry'' ''What is the fee for mtech''
        = generate_fee_response knowledge_base ''mtech''"
    by (simp add: generate_response_body_def course)
  then have "generate_response L knowledge_base ''fee_inquiry'' ''What is the fee for mtech''
        = fee_inquiry_template ''Master of Technology'' ''2-3 lakh per year''"
    by (simp only: generate_response_def mtech_fee_lookup option.case)
  with course fee_template_shows_fee_range show ?thesis
    by simp
qed

subsection \<open>Orchestration\<close>

lemma translate_from_rasa_en: "translate_from_rasa tr text ''en'' = text"
  by (simp add: translate_from_rasa_def)

text \<open>
  Claim C3. For a request whose message is classified as college related with a
  confidence of at least 0.7, the value 0.7 included, the handler calls
  \<open>generate_response\<close> with the classified intent and the message, returns its text
  (translated when the language is not \<open>en\<close>) with the response source \<open>college_ai\<close> and
  the intent and confidence of the classifier, and makes no call to the dialogue engine.
\<close>

theorem high_confidence_answered_locally:
  assumes "message data = Some m" and "strip m \<noteq> []"
    and "r = classify_intent (str_lower e) (PyStr (strip m))"
    and "is_college_related r" and "7 / 10 \<le> confidence r"
  shows "\<exists>body. fst (send_message e data) = ChatReply body
           \<and> cb_response_source body = ''college_ai''
           \<and> cb_intent body = intent r \<and> cb_confidence body = confidence r
           \<and> cb_message body
               = translate_from_rasa (translator_of e)
                   (generate_response (str_lower e) knowledge_base (intent r) (strip m)) (cb_language body)
           \<and> GenerateResponse (intent r) (strip m) \<in> set (snd (send_message e data))
           \<and> (\<forall>msg sid meta. RasaSendMessage msg sid meta \<notin> set (snd (send_message e data)))"
  using assms
  by (simp add: send_message_def Let_def route_def translate_from_rasa_en)

lemma strip_hostel: "strip ''hostel room allocation'' = ''hostel room allocation''"
  by code_simp

lemma classify_hostel:
  "is_college_related (classify_intent L (PyStr ''hostel room allocation''))
   \<and> confidence (classify_intent L (PyStr ''hostel room allocation'')) = 7 / 10
   \<and> intent (classify_intent L (PyStr ''hostel room allocation'')) = ''hostel_accommodation''"
  by code_simp

text \<open>
  \<open>hostel room allocation\<close> has two keywords and one pattern of an intent of weight 2:
  its confidence is exactly \<open>7 / 10\<close>.
\<close>

theorem high_confidence_answered_locally_witness:
  "\<exists>body. fst (send_message unreachable_env (text_request ''hostel room allocation''))
             = ChatReply body
         \<and> cb_response_source body = ''college_ai''
         \<and> cb_intent body = ''hostel_accommodation''
         \<and> cb_confidence body = 7 / 10"
proof -
  have m: "message (text_request ''hostel room allocation'') = Some ''hostel room allocation''"
    by (simp add: text_request_def)
  have s: "strip ''hostel room allocation'' \<noteq> []"
    by (simp add: strip_hostel)
  have r: "classify_intent (str_lower unreachable_env) (PyStr ''hostel room allocation'')
           = classify_intent (str_lower unreachable_env) (PyStr (strip ''hostel room allocation''))"
    by (simp add: strip_hostel)
  have c: "is_college_related (classify_intent (str_lower unreachable_env) (PyStr ''hostel room allocation''))"
    and h: "7 / 10 \<le> confidence (classify_intent (str_lower unreachable_env) (PyStr ''hostel room allocation''))"
    using classify_hostel by simp_all
  from high_confidence_answered_locally [OF m s r c h] classify_hostel
  show ?thesis by auto
qed

text \<open>
  Claim C4. For a request whose message is classified as not college related, the
  handler returns the fixed restriction message, translated when the language is not
  \<open>en\<close>, marked \<open>restricted\<close> with the intent \<open>non_college_topic\<close>, and calls neither the
  dialogue engine nor the response generator.
\<close>

theorem out_of_domain_restricted:
  assumes "message data = Some m" and "strip m \<noteq> []"
    and "\<not> is_college_related (classify_intent (str_lower e) (PyStr (strip m)))"
  shows "\<exists>body. fst (send_message e data) = RestrictedReply body
           \<and> rb_restricted body \<and> rb_intent body = ''non_college_topic''
           \<and> rb_message body
               = translate_from_rasa (translator_of e) restricted_message (rb_language body)
           \<and> (rb_language body = ''en'' \<longrightarrow> rb_message body = restricted_message)
           \<and> (\<forall>msg sid meta. RasaSendMessage msg sid meta \<notin> set (snd (send_message e data)))
           \<and> (\<forall>i q. GenerateResponse i q \<notin> set (snd (send_message e data)))
           \<and> GenerateDefaultResponse \<notin> set (snd (send_message e data))"
  using assms
  by (simp add: send_message_def Let_def translate_from_rasa_en)

lemma strip_hello: "strip ''hello there'' = ''hello there''"
  by code_simp

lemma classify_hello: "\<not> is_college_related (classify_intent L (PyStr ''hello there''))"
  by code_simp

text \<open>For \<open>hello there\<close> the only calls are the language detection and the classifier.\<close>

theorem out_of_domain_restricted_witness:
  "\<exists>body. fst (send_message unreachable_env (text_request ''hello there''))
             = RestrictedReply body
         \<and> rb_restricted body \<and> rb_message body = restricted_message
         \<and> snd (send_message unreachable_env (text_request ''hello there''))
             = [DetectLanguage ''hello there'', ClassifyIntent ''hello there'']"
proof -
  have m: "message (text_request ''hello there'') = Some ''hello there''"
    by (simp add: text_request_def)
  have s: "strip ''hello there'' \<noteq> []"
    by (simp add: strip_hello)
  have c: "\<not> is_college_related (classify_intent (str_lower unreachable_env) (PyStr (strip ''hello there'')))"
    by (simp add: strip_hello classify_hello)
  have lang: "resolve_language (text_request ''hello there'')
                (detect_language (translator_of unreachable_env) ''hello there'') = ''en''"
    by (simp add: resolve_language_def text_request_def)
  have calls: "snd (send_message unreachable_env (text_request ''hello there''))
             = [DetectLanguage ''hello there'', ClassifyIntent ''hello there'']"
    using m s c lang by (simp add: send_message_def Let_def strip_hello)
  have "rb_language (case fst (send_message unreachable_env (text_request ''hello there''))
                     of RestrictedReply b \<Rightarrow> b) = ''en''"
    using m s c lang by (simp add: send_message_def Let_def strip_hello)
  with out_of_domain_restricted [OF m s c] calls
  show ?thesis by auto
qed






subsection \<open>Failures of the engine adapter\<close>

lemma digit_char_inj: "a < 10 \<Longrightarrow> b < 10 \<Longrightarrow> digit_char a = digit_char b \<Longrightarrow> a = b"
  by (simp add: digit_char_def char_of_eq_iff take_bit_eq_mod)

lemma dec_nat_nonempty: "dec_nat n \<noteq> []"
  by (subst dec_nat.simps) simp

lemma dec_nat_small: "n < 10 \<Longrightarrow> dec_nat n = [digit_char n]"
  by (subst dec_nat.simps) simp

lemma dec_nat_large:
  "\<not> n < 10 \<Longrightarrow> dec_nat n = dec_nat (n div 10) @ [digit_char (n mod 10)]"
  by (subst dec_nat.simps) simp

lemma dec_nat_inj: "dec_nat n = dec_nat k \<Longrightarrow> n = k"
proof (induction n arbitrary: k rule: dec_nat.induct)
  case (1 n)
  show ?case
  proof (cases "n < 10")
    case n: True
    show ?thesis
    proof (cases "k < 10")
      case True
      with n "1.prems" show ?thesis
        by (simp add: dec_nat_small digit_char_inj)
    next
      case False
      with n "1.prems" dec_nat_nonempty [of "k div 10"] show ?thesis
        by (simp add: dec_nat_small dec_nat_large)
    qed
  next
    case n: False
    show ?thesis
    proof (cases "k < 10")
      case True
      with n "1.prems" dec_nat_nonempty [of "n div 10"] show ?thesis
        by (simp add: dec_nat_small dec_nat_large)
    next
      case False
      with n "1.prems" have "dec_nat (n div 10) = dec_nat (k div 10)"
        and "digit_char (n mod 10) = digit_char (k mod 10)"
        by (simp_all add: dec_nat_large)
      with n "1.IH" have "n div 10 = k div 10" and "n mod 10 = k mod 10"
        by (simp_all add: digit_char_inj)
      then show ?thesis
        by (metis div_mult_mod_eq)
    qed
  qed
qed

lemma dec_nat_200: "dec_nat 200 = ''200''"
  by code_simp

text \<open>
  Claim C9. The adapter reports its failures in the \<open>error\<close> text of the value it returns:
  the text of the exception when the request raised (engine unreachable, timeout),
  \<open>HTTP\<close> and the status code for a status other than 200, and \<open>HTTP 200\<close> for an empty
  list of messages. A non-success status and an empty list always give different values;
  the value for an exception differs from both as long as the text of the exception
  does not itself begin with \<open>HTTP\<close> and a space, which no connection or timeout error of
  the HTTP library does.
\<close>

theorem rasa_failure_causes_distinct:
  "rasa_reply (RequestRaised msg) = RasaFailure msg
   \<and> rasa_reply (HttpResponse 200 (Inr [])) = RasaFailure ''HTTP 200''
   \<and> (status \<noteq> 200 \<longrightarrow>
        rasa_reply (HttpResponse status body) = RasaFailure (''HTTP '' @ dec_nat status)
        \<and> rasa_reply (HttpResponse status body) \<noteq> rasa_reply (HttpResponse 200 (Inr [])))
   \<and> (\<not> prefix ''HTTP '' msg \<longrightarrow>
        rasa_reply (RequestRaised msg) \<noteq> rasa_reply (HttpResponse 200 (Inr []))
        \<and> (status \<noteq> 200 \<longrightarrow>
             rasa_reply (RequestRaised msg) \<noteq> rasa_reply (HttpResponse status body)))"
proof -
  have raised: "rasa_reply (RequestRaised msg) = RasaFailure msg"
    by (simp add: rasa_reply_def)
  have empty: "rasa_reply (HttpResponse 200 (Inr [])) = RasaFailure (''HTTP '' @ dec_nat 200)"
    by (simp add: rasa_reply_def)
  have status: "rasa_reply (HttpResponse status body) = RasaFailure (''HTTP '' @ dec_nat status)"
    if "status \<noteq> 200"
    using that by (simp add: rasa_reply_def)
  have differ: "rasa_reply (HttpResponse status body) \<noteq> rasa_reply (HttpResponse 200 (Inr []))"
    if "status \<noteq> 200"
    using that by (auto simp: status empty dest: dec_nat_inj)
  have other: "RasaFailure msg \<noteq> RasaFailure (''HTTP '' @ dec_nat k)"
    if "\<not> prefix ''HTTP '' msg" for k
    using that by (metis prefixI rasa_result.inject(2))
  have c1: "rasa_reply (RequestRaised msg) \<noteq> rasa_reply (HttpResponse 200 (Inr []))"
    if "\<not> prefix ''HTTP '' msg"
    unfolding raised empty using that by (rule other)
  have c2: "rasa_reply (RequestRaised msg) \<noteq> rasa_reply (HttpResponse status body)"
    if "\<not> prefix ''HTTP '' msg" and "status \<noteq> 200"
    unfolding raised status [OF that(2)] using that(1) by (rule other)
  have e: "rasa_reply (HttpResponse 200 (Inr [])) = RasaFailure ''HTTP 200''"
    using empty by (simp add: dec_nat_200)
  show ?thesis
    using raised e status differ c1 c2 by (intro conjI impI)
qed

text \<open>A refused connection, the status 503 and an empty list give three different values.\<close>

theorem rasa_failure_causes_distinct_witness:
  "rasa_reply (RequestRaised ''HTTPConnectionPool: Max retries exceeded'')
     = RasaFailure ''HTTPConnectionPool: Max retries exceeded''
   \<and> rasa_reply (HttpResponse 503 (Inr [])) = RasaFailure ''HTTP 503''
   \<and> rasa_reply (HttpResponse 200 (Inr [])) = RasaFailure ''HTTP 200''
   \<and> rasa_reply (HttpResponse 503 (Inr [])) \<noteq> rasa_reply (HttpResponse 200 (Inr []))
   \<and> rasa_reply (RequestRaised ''HTTPConnectionPool: Max retries exceeded'')
       \<noteq> rasa_reply (HttpResponse 200 (Inr []))
   \<and> rasa_reply (RequestRaised ''HTTPConnectionPool: Max retries exceeded'')
       \<noteq> rasa_reply (HttpResponse 503 (Inr []))"
proof -
  have p: "\<not> prefix ''HTTP '' ''HTTPConnectionPool: Max retries exceeded''"
    by simp
  have s: "(503 :: nat) \<noteq> 200"
    by simp
  have d: "dec_nat 503 = ''503''"
    by code_simp
  from rasa_failure_causes_distinct
         [of "''HTTPConnectionPool: Max retries exceeded''" 503 "Inr []"] p s d
  show ?thesis by simp
qed

end
